theory Spec2Isabelle
  imports Complex_Main
begin

section \<open>Conventions of the embedding\<close>

text \<open>
  The four scripts of the repository (\<^verbatim>\<open>simulator.py\<close>, \<^verbatim>\<open>simulator_.py\<close>,
  \<^verbatim>\<open>2d_sim.py\<close>, \<^verbatim>\<open>2d_sim_gemini.py\<close>) compute with floating-point numbers.
  They are embedded over the real numbers: every arithmetic operation is the exact one,
  so rounding is not modelled, and a statement of the embedding carries over to the
  scripts only where rounding cannot change it. The one non-real value the code creates on purpose,
  \<^verbatim>\<open>np.inf\<close>, is a constructor of its own. Python exceptions are values of type
  \<open>error\<close>. Module-level constants keep their names; names that occur in more than
  one script are prefixed with the script they come from
  (\<open>grid\<close> for \<^verbatim>\<open>simulator.py\<close>, \<open>mag\<close> for \<^verbatim>\<open>simulator_.py\<close>,
  \<open>faraday\<close> for \<^verbatim>\<open>2d_sim.py\<close>, \<open>lenz\<close> for \<^verbatim>\<open>2d_sim_gemini.py\<close>).
\<close>

datatype error = IndexError | ZeroDivisionError | ValueError | TypeError

section \<open>Vectors\<close>

type_synonym vec3 = "real \<times> real \<times> real"

definition vzero :: vec3 where
  "vzero = (0, 0, 0)"

fun vadd :: "vec3 \<Rightarrow> vec3 \<Rightarrow> vec3" where
  "vadd (a1, a2, a3) (b1, b2, b3) = (a1 + b1, a2 + b2, a3 + b3)"

fun vsub :: "vec3 \<Rightarrow> vec3 \<Rightarrow> vec3" where
  "vsub (a1, a2, a3) (b1, b2, b3) = (a1 - b1, a2 - b2, a3 - b3)"

fun smult :: "real \<Rightarrow> vec3 \<Rightarrow> vec3" where
  "smult c (a1, a2, a3) = (c * a1, c * a2, c * a3)"

text \<open>\<^verbatim>\<open>np.dot\<close> and \<^verbatim>\<open>np.cross\<close> on 3-vectors.\<close>

fun np_dot :: "vec3 \<Rightarrow> vec3 \<Rightarrow> real" where
  "np_dot (a1, a2, a3) (b1, b2, b3) = a1 * b1 + a2 * b2 + a3 * b3"

fun np_cross :: "vec3 \<Rightarrow> vec3 \<Rightarrow> vec3" where
  "np_cross (a1, a2, a3) (b1, b2, b3) =
     (a2 * b3 - a3 * b2, a3 * b1 - a1 * b3, a1 * b2 - a2 * b1)"

text \<open>\<^verbatim>\<open>np.linalg.norm\<close> of a 3-vector.\<close>

fun linalg_norm :: "vec3 \<Rightarrow> real" where
  "linalg_norm (a1, a2, a3) = sqrt (a1 ^ 2 + a2 ^ 2 + a3 ^ 2)"

text \<open>\<^verbatim>\<open>np.sum(vs, axis=0)\<close> of an array of shape (N, 3): the rows are added up
  from the zero vector.\<close>

definition np_sum_rows :: "vec3 list \<Rightarrow> vec3" where
  "np_sum_rows vs = foldl vadd vzero vs"

text \<open>\<^verbatim>\<open>np.stack([xs, ys, zs], axis=1)\<close> of three arrays of the same length.\<close>

definition np_stack3 :: "real list \<Rightarrow> real list \<Rightarrow> real list \<Rightarrow> vec3 list" where
  "np_stack3 xs ys zs = zip xs (zip ys zs)"

section \<open>Geometry Generator\<close>

text \<open>
  \<^verbatim>\<open>np.linspace(0, 2*np.pi, coils_points, endpoint=False)\<close>: the step is
  \<open>(stop - start) / num\<close> and the samples are \<open>k * step + start\<close>.
  Counts are natural numbers.
\<close>

definition np_linspace_open :: "real \<Rightarrow> real \<Rightarrow> nat \<Rightarrow> real list" where
  "np_linspace_open start stop num =
     map (\<lambda>k. real k * ((stop - start) / real num) + start) [0..<num]"

definition thetas :: "nat \<Rightarrow> real list" where
  "thetas coils_points = np_linspace_open 0 (2 * pi) coils_points"

definition coil_pos_x :: "real \<Rightarrow> nat \<Rightarrow> real list" where
  "coil_pos_x coils_radius coils_points = map (\<lambda>t. coils_radius * cos t) (thetas coils_points)"

definition coil_pos_y :: "real \<Rightarrow> nat \<Rightarrow> real list" where
  "coil_pos_y coils_radius coils_points = map (\<lambda>t. coils_radius * sin t) (thetas coils_points)"

text \<open>\<^verbatim>\<open>np.diff(a)\<close>: \<open>out[i] = a[i+1] - a[i]\<close>. The differences are exact here; the
  scripts' are rounded doubles, so a sum of them is only known up to rounding.\<close>

fun np_diff :: "real list \<Rightarrow> real list" where
  "np_diff (a # b # xs) = (b - a) # np_diff (b # xs)"
| "np_diff [a] = []"
| "np_diff [] = []"

text \<open>\<^verbatim>\<open>np.diff(a, append=a[0])\<close>: the index \<^verbatim>\<open>a[0]\<close> is evaluated first and
  raises \<^verbatim>\<open>IndexError\<close> on an empty array.\<close>

definition np_diff_append_first :: "real list \<Rightarrow> error + real list" where
  "np_diff_append_first a =
     (case a of [] \<Rightarrow> Inl IndexError | a0 # _ \<Rightarrow> Inr (np_diff (a @ [a0])))"

definition dl_x :: "real \<Rightarrow> nat \<Rightarrow> error + real list" where
  "dl_x coils_radius coils_points = np_diff_append_first (coil_pos_x coils_radius coils_points)"

definition dl_y :: "real \<Rightarrow> nat \<Rightarrow> error + real list" where
  "dl_y coils_radius coils_points = np_diff_append_first (coil_pos_y coils_radius coils_points)"

text \<open>\<^verbatim>\<open>dl_z = np.zeros_like(dl_x)\<close>.\<close>

definition dl_z :: "real list \<Rightarrow> real list" where
  "dl_z dlx = replicate (length dlx) 0"

text \<open>The displacement vectors of one ring: \<^verbatim>\<open>np.stack([dl_x, dl_y, dl_z], axis=1)\<close>.\<close>

definition ring_dl_vectors :: "real \<Rightarrow> nat \<Rightarrow> error + vec3 list" where
  "ring_dl_vectors coils_radius coils_points =
     (case dl_x coils_radius coils_points of
        Inl e \<Rightarrow> Inl e
      | Inr dlx \<Rightarrow>
          (case dl_y coils_radius coils_points of
             Inl e \<Rightarrow> Inl e
           | Inr dly \<Rightarrow> Inr (np_stack3 dlx dly (dl_z dlx))))"

text \<open>The origins of one ring at height \<open>z_pos\<close>:
  \<^verbatim>\<open>np.stack([coil_pos_x, coil_pos_y, np.full_like(coil_pos_x, z_pos)], axis=1)\<close>.\<close>

definition segment_origins :: "real \<Rightarrow> nat \<Rightarrow> real \<Rightarrow> vec3 list" where
  "segment_origins coils_radius coils_points z_pos =
     np_stack3 (coil_pos_x coils_radius coils_points) (coil_pos_y coils_radius coils_points)
       (replicate (length (coil_pos_x coils_radius coils_points)) z_pos)"

text \<open>
  \<^verbatim>\<open>np.arange(start, stop, step)\<close>: \<open>ceil((stop - start) / step)\<close> samples
  \<open>start + i * step\<close>; a zero step raises \<^verbatim>\<open>ZeroDivisionError\<close>. The quotient is
  the exact one here. The scripts' rounded quotient can lie just above an integer, and
  then the range has one sample more (for 2 turns and step 0.1 it has 4, not 3).
\<close>

definition np_arange :: "real \<Rightarrow> real \<Rightarrow> real \<Rightarrow> error + real list" where
  "np_arange start stop step =
     (if step = 0 then Inl ZeroDivisionError
      else Inr (map (\<lambda>i. start + real i * step) [0..<nat \<lceil>(stop - start) / step\<rceil>]))"

text \<open>
  The axial offsets the two scripts loop over.
  \<^verbatim>\<open>simulator_.py\<close>: \<^verbatim>\<open>for k in range(coils_number): z_pos = k * coils_step\<close>.
  \<^verbatim>\<open>simulator.py\<close>:
  \<^verbatim>\<open>for z_pos in np.arange(0, coils_number * coils_step + coils_step, coils_step)\<close>.
\<close>

definition mag_z_positions :: "nat \<Rightarrow> real \<Rightarrow> real list" where
  "mag_z_positions coils_number coils_step = map (\<lambda>k. real k * coils_step) [0..<coils_number]"

definition grid_z_positions :: "nat \<Rightarrow> real \<Rightarrow> error + real list" where
  "grid_z_positions coils_number coils_step =
     np_arange 0 (real coils_number * coils_step + coils_step) coils_step"

text \<open>
  The list \<^verbatim>\<open>all_segment_origins\<close> (one array per ring) and its concatenation
  (\<^verbatim>\<open>r_primes_coil\<close> in \<^verbatim>\<open>simulator_.py\<close>, \<^verbatim>\<open>r_primes\<close> in \<^verbatim>\<open>simulator.py\<close>).
  Both scripts compute \<^verbatim>\<open>dl_x\<close> before the loop, so an empty ring raises first.
  \<^verbatim>\<open>np.concatenate\<close> of an empty list of arrays raises \<^verbatim>\<open>ValueError\<close>.
\<close>

definition np_concatenate :: "vec3 list list \<Rightarrow> error + vec3 list" where
  "np_concatenate arrays = (if arrays = [] then Inl ValueError else Inr (concat arrays))"

definition mag_all_segment_origins :: "nat \<Rightarrow> real \<Rightarrow> real \<Rightarrow> nat \<Rightarrow> error + vec3 list list" where
  "mag_all_segment_origins coils_number coils_step coils_radius coils_points =
     (case ring_dl_vectors coils_radius coils_points of
        Inl e \<Rightarrow> Inl e
      | Inr _ \<Rightarrow>
          Inr (map (segment_origins coils_radius coils_points)
                 (mag_z_positions coils_number coils_step)))"

definition r_primes_coil :: "nat \<Rightarrow> real \<Rightarrow> real \<Rightarrow> nat \<Rightarrow> error + vec3 list" where
  "r_primes_coil coils_number coils_step coils_radius coils_points =
     (case mag_all_segment_origins coils_number coils_step coils_radius coils_points of
        Inl e \<Rightarrow> Inl e
      | Inr rings \<Rightarrow> np_concatenate rings)"

definition grid_all_segment_origins :: "nat \<Rightarrow> real \<Rightarrow> real \<Rightarrow> nat \<Rightarrow> error + vec3 list list" where
  "grid_all_segment_origins coils_number coils_step coils_radius coils_points =
     (case ring_dl_vectors coils_radius coils_points of
        Inl e \<Rightarrow> Inl e
      | Inr _ \<Rightarrow>
          (case grid_z_positions coils_number coils_step of
             Inl e \<Rightarrow> Inl e
           | Inr zs \<Rightarrow> Inr (map (segment_origins coils_radius coils_points) zs)))"

definition r_primes :: "nat \<Rightarrow> real \<Rightarrow> real \<Rightarrow> nat \<Rightarrow> error + vec3 list" where
  "r_primes coils_number coils_step coils_radius coils_points =
     (case grid_all_segment_origins coils_number coils_step coils_radius coils_points of
        Inl e \<Rightarrow> Inl e
      | Inr rings \<Rightarrow> np_concatenate rings)"

section \<open>Field Evaluators\<close>

definition mu_0 :: real where
  "mu_0 = 4 * pi * (1 / 10 ^ 7)"

subsection \<open>Division of arrays\<close>

text \<open>
  A divisor is a real number or \<^verbatim>\<open>np.inf\<close>, as the entries of
  \<^verbatim>\<open>r_norm3 = np.where(r_norm == 0, np.inf, r_norm**3)\<close> are.
\<close>

datatype denom = Finite real | Infinite

definition r_norm3 :: "real \<Rightarrow> denom" where
  "r_norm3 r_norm = (if r_norm = 0 then Infinite else Finite (r_norm ^ 3))"

text \<open>
  Division of a vector by an entry of \<^verbatim>\<open>r_norm3\<close>
  (\<^verbatim>\<open>np.cross(dl, r_vector) / r_norm3[..., np.newaxis]\<close>). A finite number divided by
  \<^verbatim>\<open>np.inf\<close> is zero. Division by zero gives no real number (numpy yields
  \<^verbatim>\<open>inf\<close> or \<^verbatim>\<open>nan\<close> with a warning): the result \<open>None\<close>.
\<close>

fun np_divide :: "vec3 \<Rightarrow> denom \<Rightarrow> vec3 option" where
  "np_divide (a1, a2, a3) Infinite = Some (0, 0, 0)"
| "np_divide (a1, a2, a3) (Finite d) =
     (if d = 0 then None else Some (a1 / d, a2 / d, a3 / d))"

subsection \<open>Point dipole (\<^verbatim>\<open>simulator_.py\<close>)\<close>

text \<open>
  \<^verbatim>\<open>magnetic_field_from_dipole(r_point, r_dipole, m_dipole)\<close>. The two divisions are
  numpy divisions: by zero they give \<^verbatim>\<open>nan\<close> or \<^verbatim>\<open>inf\<close>, no real vector.
  \<^verbatim>\<open>mu_0 / (4 * np.pi)\<close> divides by a nonzero literal.
\<close>

definition magnetic_field_from_dipole :: "vec3 \<Rightarrow> vec3 \<Rightarrow> vec3 \<Rightarrow> vec3 option" where
  "magnetic_field_from_dipole r_point r_dipole m_dipole =
     (let r_vec = vsub r_point r_dipole;
          r_mag = linalg_norm r_vec
      in if r_mag = 0 then Some (0, 0, 0)
         else
           (case np_divide r_vec (Finite r_mag) of
              None \<Rightarrow> None
            | Some r_hat \<Rightarrow>
                (let m_dot_r_hat = np_dot m_dipole r_hat;
                     term = vsub (smult (3 * m_dot_r_hat) r_hat) m_dipole
                 in np_divide (smult (mu_0 / (4 * pi)) term) (Finite (r_mag ^ 3)))))"

subsection \<open>Biot-Savart (\<^verbatim>\<open>simulator_.py\<close> at one point, \<^verbatim>\<open>simulator.py\<close> on a grid)\<close>

text \<open>One row of \<^verbatim>\<open>dB = km * (np.cross(dl, r_vector) / r_norm3[..., np.newaxis])\<close>.\<close>

definition dB_row :: "real \<Rightarrow> vec3 \<Rightarrow> vec3 \<Rightarrow> vec3 option" where
  "dB_row km dl r_vector =
     map_option (smult km) (np_divide (np_cross dl r_vector) (r_norm3 (linalg_norm r_vector)))"

text \<open>Addition of array entries: a non-real entry stays non-real.\<close>

fun np_add :: "vec3 option \<Rightarrow> vec3 option \<Rightarrow> vec3 option" where
  "np_add (Some a) (Some b) = Some (vadd a b)"
| "np_add _ _ = None"

definition np_sum_axis0 :: "vec3 option list \<Rightarrow> vec3 option" where
  "np_sum_axis0 rows = foldl np_add (Some vzero) rows"

text \<open>
  \<^verbatim>\<open>magnetic_field_from_coil_at_point(r_point, r_primes, dl_vectors, km)\<close>: the point is
  broadcast against the rows of \<^verbatim>\<open>r_primes\<close>; \<^verbatim>\<open>dl_vectors\<close> has the same number of
  rows.
\<close>

definition magnetic_field_from_coil_at_point ::
  "vec3 \<Rightarrow> vec3 list \<Rightarrow> vec3 list \<Rightarrow> real \<Rightarrow> vec3 option" where
  "magnetic_field_from_coil_at_point r_point r_primes_arg dl_vectors km =
     (let r_vector = map (\<lambda>r_prime. vsub r_point r_prime) r_primes_arg;
          dB_contributions = map (\<lambda>(dl, r). dB_row km dl r) (zip dl_vectors r_vector)
      in np_sum_axis0 dB_contributions)"

section \<open>Field Sampling Grid (\<^verbatim>\<open>simulator.py\<close>)\<close>

type_synonym 'a grid3 = "'a list list list"

text \<open>
  \<^verbatim>\<open>Bx, By, Bz = np.meshgrid(x_dim, y_dim, z_dim, indexing='ij')\<close> and
  \<^verbatim>\<open>B = np.stack([Bx, By, Bz], axis=-1)\<close>: entry \<open>[i][j][k]\<close> is
  \<open>(x_dim[i], y_dim[j], z_dim[k])\<close>.
\<close>

definition grid_points :: "real list \<Rightarrow> real list \<Rightarrow> real list \<Rightarrow> vec3 grid3" where
  "grid_points x_dim y_dim z_dim =
     map (\<lambda>x. map (\<lambda>y. map (\<lambda>z. (x, y, z)) z_dim) y_dim) x_dim"

text \<open>
  The slice \<open>dB[n]\<close> of the broadcast array for segment \<open>n\<close>:
  \<^verbatim>\<open>r_vector = r - r_prime\<close>, then the same row formula at every lattice point.
\<close>

definition grid_dB_slice :: "real \<Rightarrow> vec3 grid3 \<Rightarrow> vec3 \<Rightarrow> vec3 \<Rightarrow> vec3 option grid3" where
  "grid_dB_slice km r r_prime dl =
     map (map (map (\<lambda>r_point. dB_row km dl (vsub r_point r_prime)))) r"

definition grid_add :: "vec3 option grid3 \<Rightarrow> vec3 option grid3 \<Rightarrow> vec3 option grid3" where
  "grid_add g h = map2 (map2 (map2 np_add)) g h"

text \<open>
  \<^verbatim>\<open>B = np.sum(dB, axis=0)\<close>: the slices are added up entry by entry from an array
  of zeros of the lattice's shape.
\<close>

definition grid_sum_axis0 :: "vec3 grid3 \<Rightarrow> vec3 option grid3 list \<Rightarrow> vec3 option grid3" where
  "grid_sum_axis0 r slices =
     foldl grid_add (map (map (map (\<lambda>_. Some vzero))) r) slices"

definition grid_B ::
  "real list \<Rightarrow> real list \<Rightarrow> real list \<Rightarrow> vec3 list \<Rightarrow> vec3 list \<Rightarrow> real \<Rightarrow> vec3 option grid3" where
  "grid_B x_dim y_dim z_dim r_primes_arg dl_vectors km =
     (let r = grid_points x_dim y_dim z_dim;
          dB = map (\<lambda>(dl, r_prime). grid_dB_slice km r r_prime dl) (zip dl_vectors r_primes_arg)
      in grid_sum_axis0 r dB)"

section \<open>Time-Series Integrators\<close>

subsection \<open>The moving dipole of \<^verbatim>\<open>simulator_.py\<close>\<close>

definition magnet_magnetic_moment :: vec3 where
  "magnet_magnetic_moment = (0, 0, - 50)"

definition mag_magnet_speed :: real where
  "mag_magnet_speed = 5 / 100"

definition magnet_initial_z :: real where
  "magnet_initial_z = 4"

definition magnet_final_z :: real where
  "magnet_final_z = - 4"

record mag_state =
  magnet_current_z :: real
  magnet_z_positions :: "real list"
  B_magnitude_at_center :: "real option list"

text \<open>
  \<^verbatim>\<open>animate(frame)\<close> of \<^verbatim>\<open>simulator_.py\<close>, without its drawing calls. The frame
  number is not used. \<open>center_point\<close> is the module-level array computed once from the
  geometry; \<open>magnet_pos\<close> takes its first two coordinates. The position is assigned
  before any other statement of the function. A field that is no real vector has a
  magnitude that is no real number (\<open>None\<close>).
\<close>

definition mag_animate :: "vec3 \<Rightarrow> mag_state \<Rightarrow> mag_state" where
  "mag_animate center_point st =
     (let z1 = magnet_current_z st - mag_magnet_speed;
          z2 = (if z1 < magnet_final_z then magnet_initial_z else z1);
          magnet_pos = (fst center_point, fst (snd center_point), z2);
          B_magnet_at_center =
            magnetic_field_from_dipole center_point magnet_pos magnet_magnetic_moment;
          B_magnitude_current = map_option linalg_norm B_magnet_at_center
      in \<lparr> magnet_current_z = z2,
           magnet_z_positions = magnet_z_positions st @ [z2],
           B_magnitude_at_center = B_magnitude_at_center st @ [B_magnitude_current] \<rparr>)"

subsection \<open>The inverse-cube model of \<^verbatim>\<open>2d_sim.py\<close>\<close>

definition faraday_N :: real where
  "faraday_N = 1"

definition faraday_A :: real where
  "faraday_A = 1 / 10 ^ 4"

definition faraday_v :: real where
  "faraday_v = 2 / 100"

definition faraday_m :: real where
  "faraday_m = 1"

definition coil_position :: real where
  "coil_position = 5 / 10"

definition faraday_dt :: real where
  "faraday_dt = 5 / 100"

definition faraday_x0 :: real where
  "faraday_x0 = - (5 / 10)"

text \<open>\<^verbatim>\<open>frames = int(t_max / dt)\<close> with \<^verbatim>\<open>t_max = 10\<close>.\<close>

definition faraday_frames :: nat where
  "faraday_frames = 200"

text \<open>
  \<^verbatim>\<open>B_field(x)\<close>: Python floats, so a zero divisor raises \<^verbatim>\<open>ZeroDivisionError\<close>.
  The divisor is the exact one here. For \<open>r \<ge> 0\<close>, which covers every position the
  script passes, it is at least \<open>2 * pi * 1e-9\<close> with and without rounding. Close to
  \<open>r = - 0.001\<close> the sign and the vanishing of the rounded divisor depend on the
  rounding, which the embedding does not model: nothing below speaks about that region.
\<close>

definition B_field_denominator :: "real \<Rightarrow> real" where
  "B_field_denominator x = (let r = coil_position - x in 2 * pi * (r ^ 3 + 1 / 10 ^ 9))"

definition B_field :: "real \<Rightarrow> error + real" where
  "B_field x =
     (if B_field_denominator x = 0 then Inl ZeroDivisionError
      else Inr (mu_0 * faraday_m / B_field_denominator x))"

record faraday_state =
  x_vals :: "real list"
  flux_vals :: "real list"
  emf_vals :: "real list"

text \<open>Python's \<^verbatim>\<open>xs[-k]\<close> for \<open>k \<ge> 1\<close>.\<close>

definition py_index_from_end :: "real list \<Rightarrow> nat \<Rightarrow> error + real" where
  "py_index_from_end xs k =
     (if 1 \<le> k \<and> k \<le> length xs then Inr (xs ! (length xs - k)) else Inl IndexError)"

text \<open>\<^verbatim>\<open>update(frame)\<close> of \<^verbatim>\<open>2d_sim.py\<close> up to \<^verbatim>\<open>emf_vals.append(emf)\<close>; the
  drawing calls follow it and do not touch the three lists. The time and the flux are
  appended before the EMF is computed, as in the source.\<close>

definition faraday_update :: "nat \<Rightarrow> faraday_state \<Rightarrow> error + faraday_state" where
  "faraday_update frame st =
     (let t = real frame * faraday_dt;
          x = faraday_x0 + faraday_v * t
      in case B_field x of
           Inl e \<Rightarrow> Inl e
         | Inr B \<Rightarrow>
             (let flux = faraday_N * faraday_A * B;
                  xs = x_vals st @ [t];
                  fs = flux_vals st @ [flux]
              in if frame = 0
                 then Inr \<lparr> x_vals = xs, flux_vals = fs, emf_vals = emf_vals st @ [0] \<rparr>
                 else
                   (case py_index_from_end fs 1 of
                      Inl e \<Rightarrow> Inl e
                    | Inr f1 \<Rightarrow>
                        (case py_index_from_end fs 2 of
                           Inl e \<Rightarrow> Inl e
                         | Inr f2 \<Rightarrow>
                             Inr \<lparr> x_vals = xs, flux_vals = fs,
                                   emf_vals = emf_vals st @ [- (f1 - f2) / faraday_dt] \<rparr>))))"

text \<open>The animation driver calls \<^verbatim>\<open>update\<close> with the frames in order; an exception
  ends the run.\<close>

fun faraday_run :: "nat list \<Rightarrow> faraday_state \<Rightarrow> error + faraday_state" where
  "faraday_run [] st = Inr st"
| "faraday_run (frame # rest) st =
     (case faraday_update frame st of Inl e \<Rightarrow> Inl e | Inr st' \<Rightarrow> faraday_run rest st')"

definition faraday_init :: faraday_state where
  "faraday_init = \<lparr> x_vals = [], flux_vals = [], emf_vals = [] \<rparr>"

subsection \<open>The inverse-square model of \<^verbatim>\<open>2d_sim_gemini.py\<close>\<close>

definition coil_x :: real where
  "coil_x = 0"

definition coil_y :: real where
  "coil_y = 0"

definition coil_width :: real where
  "coil_width = 15 / 10"

definition coil_height :: real where
  "coil_height = 15 / 10"

definition num_turns :: real where
  "num_turns = 10"

definition coil_resistance :: real where
  "coil_resistance = 1"

definition magnet_length :: real where
  "magnet_length = 8 / 10"

definition lenz_magnet_speed :: real where
  "lenz_magnet_speed = 1 / 10"

definition B_field_strength :: real where
  "B_field_strength = 1"

definition coil_center_x :: real where
  "coil_center_x = coil_x"

definition coil_center_y :: real where
  "coil_center_y = coil_y"

text \<open>\<^verbatim>\<open>ax.set_xlim([-5, 5])\<close>; \<^verbatim>\<open>ax.get_xlim()\<close> returns the pair.\<close>

definition ax_xlim :: "real \<times> real" where
  "ax_xlim = (- 5, 5)"

text \<open>Division of floats with a divisor that is not a literal.\<close>

definition py_div :: "real \<Rightarrow> real \<Rightarrow> error + real" where
  "py_div a b = (if b = 0 then Inl ZeroDivisionError else Inr (a / b))"

definition bind_err :: "error + 'a \<Rightarrow> ('a \<Rightarrow> error + 'b) \<Rightarrow> error + 'b" where
  "bind_err r f = (case r of Inl e \<Rightarrow> Inl e | Inr a \<Rightarrow> f a)"

text \<open>\<^verbatim>\<open>calculate_magnetic_field_at_coil\<close>; its third parameter is not used by the
  source either.\<close>

definition calculate_magnetic_field_at_coil :: "real \<Rightarrow> real \<Rightarrow> real \<Rightarrow> real \<Rightarrow> error + real" where
  "calculate_magnetic_field_at_coil magnet_pos_x coil_pos_x_arg coil_width_arg B_strength =
     (let distance = \<bar>magnet_pos_x - coil_pos_x_arg\<bar>;
          epsilon = 1 / 10
      in py_div B_strength (distance ^ 2 + epsilon))"

text \<open>
  The indicators the frame function switches: the transparency of the current arrow, the
  \<open>dy\<close> stored in it, the transparencies of the two induced-field arrows, and the
  induced-field label with its transparency. The other patch coordinates and the number
  formatting of the current label are left out.
\<close>

record lenz_display =
  current_arrow_alpha :: real
  current_arrow_dy :: real
  induced_B_arrow_in_alpha :: real
  induced_B_arrow_out_alpha :: real
  induced_B_text :: string
  induced_B_text_alpha :: real

text \<open>
  \<^verbatim>\<open>current_arrow.set_data(x=[..], y=[..], dx=0, dy=..)\<close>. The library method stores
  its arguments in the arrow and then rebuilds the vertices, computing \<open>x + dx\<close>. Both
  calls of the source pass a Python list for \<open>x\<close> and the integer 0 for \<open>dx\<close>, and a
  list plus an integer raises \<^verbatim>\<open>TypeError\<close>: the call stores the arguments and raises.
\<close>

definition current_arrow_set_data ::
  "real list \<Rightarrow> real list \<Rightarrow> int \<Rightarrow> real \<Rightarrow> lenz_display \<Rightarrow> error option \<times> lenz_display" where
  "current_arrow_set_data x y dx dy d = (Some TypeError, d\<lparr> current_arrow_dy := dy \<rparr>)"

definition hide_indicators :: "lenz_display \<Rightarrow> lenz_display" where
  "hide_indicators d =
     d\<lparr> current_arrow_alpha := 0, induced_B_arrow_in_alpha := 0,
        induced_B_arrow_out_alpha := 0, induced_B_text_alpha := 0 \<rparr>"

text \<open>
  Lines 270 to 333 of \<^verbatim>\<open>animate\<close>: the threshold test, the sign test, and the
  drawing calls of each branch in the order of the source. The result is the exception
  raised, if any (first component), and the indicators as they are left (second).
\<close>

definition lenz_indicators ::
  "real \<Rightarrow> real \<Rightarrow> lenz_display \<Rightarrow> error option \<times> lenz_display" where
  "lenz_indicators emf_induced current_induced d =
     (let current_strength = \<bar>current_induced\<bar>
      in if current_strength > 1 / 100
         then
           (let d1 = d\<lparr> current_arrow_alpha := 1 \<rparr>
            in if emf_induced < 0
               then
                 (let r = current_arrow_set_data
                         [coil_center_x + coil_width / 2 * (7 / 10),
                          coil_center_x + coil_width / 2 * (7 / 10)]
                         [coil_center_y + coil_height / 2 * (7 / 10),
                          coil_center_y + coil_height / 2 * (7 / 10) - 1 / 1000]
                         0 (- (1 / 10) * sgn current_induced) d1
                  in case fst r of
                       Some e \<Rightarrow> (Some e, snd r)
                     | None \<Rightarrow>
                         (None, (snd r)\<lparr> induced_B_arrow_out_alpha := 1,
                                       induced_B_arrow_in_alpha := 0,
                                       induced_B_text := ''B inducido: SALIENDO'',
                                       induced_B_text_alpha := 1 \<rparr>))
               else if emf_induced > 0
               then
                 (let r = current_arrow_set_data
                         [coil_center_x + coil_width / 2 * (7 / 10),
                          coil_center_x + coil_width / 2 * (7 / 10)]
                         [coil_center_y - coil_height / 2 * (7 / 10),
                          coil_center_y - coil_height / 2 * (7 / 10) + 1 / 1000]
                         0 ((1 / 10) * sgn current_induced) d1
                  in case fst r of
                       Some e \<Rightarrow> (Some e, snd r)
                     | None \<Rightarrow>
                         (None, (snd r)\<lparr> induced_B_arrow_in_alpha := 1,
                                       induced_B_arrow_out_alpha := 0,
                                       induced_B_text := ''B inducido: ENTRANDO'',
                                       induced_B_text_alpha := 1 \<rparr>))
               else (None, hide_indicators d1))
         else (None, hide_indicators d))"

record lenz_state =
  magnet_x :: real
  flux_history :: "real list"
  emf_history :: "real list"
  current_history :: "real list"
  time_steps :: "nat list"
  display :: lenz_display

text \<open>
  The EMF of a step: \<^verbatim>\<open>emf_induced = 0\<close>, replaced by the backward difference when
  the history has more than one entry (\<^verbatim>\<open>dt_sim = 1\<close>).
\<close>

definition lenz_emf :: "real list \<Rightarrow> error + real" where
  "lenz_emf fs =
     (if length fs > 1
      then
        bind_err (py_index_from_end fs 1) (\<lambda>f1.
        bind_err (py_index_from_end fs 2) (\<lambda>f2.
          (let dt_sim = 1; delta_flux = f1 - f2 in Inr (- delta_flux / dt_sim))))
      else Inr 0)"

text \<open>
  \<^verbatim>\<open>animate(frame)\<close> of \<^verbatim>\<open>2d_sim_gemini.py\<close>. The function works on module-level
  variables, so what it has assigned or appended before an exception stays: the result is
  the exception raised, if any, and the state as it is left. The position is assigned
  first; the frame number and the flux are appended before the EMF is computed; the EMF
  and the current are appended last, after the indicators.
\<close>

definition lenz_animate :: "nat \<Rightarrow> lenz_state \<Rightarrow> error option \<times> lenz_state" where
  "lenz_animate frame st =
     (let x1 = magnet_x st + lenz_magnet_speed;
          x2 = (if x1 > snd ax_xlim + magnet_length / 2
                then fst ax_xlim - magnet_length / 2 else x1);
          st1 = st\<lparr> magnet_x := x2 \<rparr>
      in
        case calculate_magnetic_field_at_coil x2 coil_center_x coil_width B_field_strength of
          Inl e \<Rightarrow> (Some e, st1)
        | Inr B_at_coil \<Rightarrow>
        (case py_div B_field_strength ((x2 - coil_center_x) ^ 2 + (coil_width / 2) ^ 2) of
          Inl e \<Rightarrow> (Some e, st1)
        | Inr magnetic_field_magnitude \<Rightarrow>
        (let phi_B = magnetic_field_magnitude * coil_width * coil_height * num_turns;
             st2 = st1\<lparr> time_steps := time_steps st1 @ [frame],
                        flux_history := flux_history st1 @ [phi_B] \<rparr>
         in
           case lenz_emf (flux_history st2) of
             Inl e \<Rightarrow> (Some e, st2)
           | Inr emf_induced \<Rightarrow>
           (case py_div emf_induced coil_resistance of
             Inl e \<Rightarrow> (Some e, st2)
           | Inr current_induced \<Rightarrow>
           (let r = lenz_indicators emf_induced current_induced (display st2)
            in case fst r of
                 Some e \<Rightarrow> (Some e, st2\<lparr> display := snd r \<rparr>)
               | None \<Rightarrow>
                   (None, st2\<lparr> display := snd r,
                               emf_history := emf_history st2 @ [emf_induced],
                               current_history :=
                                 current_history st2 @ [current_induced] \<rparr>))))))"

text \<open>\<^verbatim>\<open>init()\<close>: hides the indicators and clears the four histories; the magnet keeps
  its position.\<close>

definition lenz_init :: "lenz_state \<Rightarrow> lenz_state" where
  "lenz_init st =
     st\<lparr> flux_history := [], emf_history := [], current_history := [], time_steps := [],
         display := hide_indicators (display st) \<rparr>"

text \<open>The animation driver calls \<^verbatim>\<open>animate\<close> frame by frame; an exception ends the
  run.\<close>

fun lenz_run :: "nat list \<Rightarrow> lenz_state \<Rightarrow> error option \<times> lenz_state" where
  "lenz_run [] st = (None, st)"
| "lenz_run (frame # rest) st =
     (let r = lenz_animate frame st
      in case fst r of
           Some e \<Rightarrow> r
         | None \<Rightarrow> lenz_run rest (snd r))"

text \<open>
  The state the script starts from: the magnet at \<^verbatim>\<open>initial_magnet_x\<close>, empty
  histories, and the indicators as the module creates them (all transparent, the label
  \<^verbatim>\<open>B Inducido\<close>).
\<close>

definition initial_magnet_x :: real where
  "initial_magnet_x = - 3"

definition initial_display :: lenz_display where
  "initial_display =
     \<lparr> current_arrow_alpha = 0, current_arrow_dy = 0, induced_B_arrow_in_alpha = 0,
       induced_B_arrow_out_alpha = 0, induced_B_text = ''B Inducido'',
       induced_B_text_alpha = 0 \<rparr>"

definition initial_lenz_state :: lenz_state where
  "initial_lenz_state =
     \<lparr> magnet_x = initial_magnet_x, flux_history = [], emf_history = [],
       current_history = [], time_steps = [], display = initial_display \<rparr>"

subsection \<open>Quantities and invariants used to state the properties\<close>

text \<open>The flux \<^verbatim>\<open>update(frame)\<close> of \<^verbatim>\<open>2d_sim.py\<close> computes: \<open>N * A * B_field(x)\<close>
  at \<open>x = x0 + v * (frame * dt)\<close>.\<close>

definition faraday_flux :: "nat \<Rightarrow> real" where
  "faraday_flux frame =
     faraday_N * faraday_A *
       (mu_0 * faraday_m /
          B_field_denominator (faraday_x0 + faraday_v * (real frame * faraday_dt)))"

text \<open>
  After \<open>n\<close> frames of \<^verbatim>\<open>2d_sim.py\<close> the three lists have \<open>n\<close> entries: the times,
  the fluxes of the frames, and the EMFs, the first zero and every later one the negated
  backward difference of the flux over \<open>dt\<close>.
\<close>

definition faraday_inv :: "nat \<Rightarrow> faraday_state \<Rightarrow> bool" where
  "faraday_inv n st \<longleftrightarrow>
     length (flux_vals st) = n \<and> length (emf_vals st) = n \<and> length (x_vals st) = n \<and>
     (\<forall>k < n. x_vals st ! k = real k * faraday_dt \<and>
        flux_vals st ! k = faraday_flux k \<and>
        emf_vals st ! k =
          (if k = 0 then 0 else - (flux_vals st ! k - flux_vals st ! (k - 1)) / faraday_dt))"

text \<open>The position and the flux of a step of \<^verbatim>\<open>2d_sim_gemini.py\<close> from position
  \<open>x\<close>.\<close>

definition lenz_next_x :: "real \<Rightarrow> real" where
  "lenz_next_x x =
     (if x + lenz_magnet_speed > snd ax_xlim + magnet_length / 2
      then fst ax_xlim - magnet_length / 2 else x + lenz_magnet_speed)"

definition lenz_phi_B :: "real \<Rightarrow> real" where
  "lenz_phi_B x =
     B_field_strength / ((lenz_next_x x - coil_center_x) ^ 2 + (coil_width / 2) ^ 2)
       * coil_width * coil_height * num_turns"

text \<open>The EMF of a step from the state \<open>st\<close>: zero on an empty flux history, else
  the negated difference of the new flux and the last one over the unit step.\<close>

definition lenz_step_emf :: "lenz_state \<Rightarrow> real" where
  "lenz_step_emf st =
     (if flux_history st = [] then 0
      else - (lenz_phi_B (magnet_x st) - last (flux_history st)) / 1)"

text \<open>
  What holds of the histories of \<^verbatim>\<open>2d_sim_gemini.py\<close> at any moment: the EMF and the
  current are recorded together, for no more steps than the flux; the first recorded EMF
  is zero and every later one is the negated backward difference of the flux over the unit
  step; the current is the EMF over the resistance; every flux is positive.
\<close>

definition lenz_recorded :: "lenz_state \<Rightarrow> bool" where
  "lenz_recorded st \<longleftrightarrow>
     length (current_history st) = length (emf_history st) \<and>
     length (emf_history st) \<le> length (flux_history st) \<and>
     (\<forall>k < length (emf_history st).
        emf_history st ! k =
          (if k = 0 then 0 else - (flux_history st ! k - flux_history st ! (k - 1)) / 1) \<and>
        current_history st ! k = emf_history st ! k / coil_resistance) \<and>
     list_all (\<lambda>f. 0 < f) (flux_history st)"

text \<open>Between two frames that did not raise, every step is recorded.\<close>

definition lenz_inv :: "lenz_state \<Rightarrow> bool" where
  "lenz_inv st \<longleftrightarrow> lenz_recorded st \<and> length (emf_history st) = length (flux_history st)"

section \<open>Properties of the Geometry Generator\<close>

lemma np_diff_length: "length (np_diff ys) = length ys - 1"
  by (induction ys rule: np_diff.induct) auto

lemma np_diff_append_first_length:
  "a \<noteq> [] \<Longrightarrow> \<exists>d. np_diff_append_first a = Inr d \<and> length d = length a"
  by (cases a) (auto simp: np_diff_append_first_def np_diff_length)

lemma length_thetas: "length (thetas n) = n"
  by (simp add: thetas_def np_linspace_open_def)

lemma length_coil_pos: "length (coil_pos_x r n) = n" "length (coil_pos_y r n) = n"
  by (simp_all add: coil_pos_x_def coil_pos_y_def length_thetas)

text \<open>A ring of at least one point has as many displacement vectors as points.\<close>

lemma ring_dl_vectors_ok:
  "0 < coils_points \<Longrightarrow>
   \<exists>dls. ring_dl_vectors coils_radius coils_points = Inr dls \<and> length dls = coils_points"
proof -
  assume pos: "0 < coils_points"
  have nx: "coil_pos_x coils_radius coils_points \<noteq> []"
    and ny: "coil_pos_y coils_radius coils_points \<noteq> []"
    using pos length_coil_pos[of coils_radius coils_points] by auto
  obtain dx where dx: "dl_x coils_radius coils_points = Inr dx" "length dx = coils_points"
    using np_diff_append_first_length[OF nx] by (auto simp: dl_x_def length_coil_pos)
  obtain dy where dy: "dl_y coils_radius coils_points = Inr dy" "length dy = coils_points"
    using np_diff_append_first_length[OF ny] by (auto simp: dl_y_def length_coil_pos)
  have "length (np_stack3 dx dy (dl_z dx)) = coils_points"
    using dx dy by (simp add: np_stack3_def dl_z_def)
  then show ?thesis
    using dx dy by (simp add: ring_dl_vectors_def)
qed

text \<open>An empty ring makes both scripts stop at \<^verbatim>\<open>coil_pos_x[0]\<close>.\<close>

lemma ring_dl_vectors_empty: "ring_dl_vectors coils_radius 0 = Inl IndexError"
  by (simp add: ring_dl_vectors_def dl_x_def coil_pos_x_def thetas_def np_linspace_open_def
      np_diff_append_first_def)

lemma length_segment_origins: "length (segment_origins r p z) = p"
  by (simp add: segment_origins_def np_stack3_def length_coil_pos)

lemma length_concat_rings:
  "length (concat (map (\<lambda>z. segment_origins r p (f z)) zs)) = p * length zs"
  by (induction zs) (simp_all add: length_segment_origins)

lemma segment_origins_z: "v \<in> set (segment_origins r p z) \<Longrightarrow> snd (snd v) = z"
proof -
  assume a: "v \<in> set (segment_origins r p z)"
  obtain x y z' where v: "v = (x, y, z')" by (cases v) auto
  from a v have "(y, z') \<in> set (zip (coil_pos_y r p) (replicate (length (coil_pos_x r p)) z))"
    unfolding segment_origins_def np_stack3_def by (auto dest: set_zip_rightD)
  then have "z' \<in> set (replicate (length (coil_pos_x r p)) z)"
    by (rule set_zip_rightD)
  then show ?thesis using v by simp
qed

text \<open>
  \<^verbatim>\<open>simulator_.py\<close>: \<open>coils_number\<close> rings of \<open>coils_points\<close> origins each, ring
  \<open>k\<close> at height \<open>k * coils_step\<close>.
\<close>

lemma mag_rings:
  "0 < coils_points \<Longrightarrow> 0 < coils_number \<Longrightarrow>
   \<exists>rings rs.
     mag_all_segment_origins coils_number coils_step coils_radius coils_points = Inr rings \<and>
     r_primes_coil coils_number coils_step coils_radius coils_points = Inr rs \<and>
     rs = concat rings \<and>
     length rings = coils_number \<and>
     (\<forall>k < coils_number. length (rings ! k) = coils_points \<and>
         (\<forall>v \<in> set (rings ! k). snd (snd v) = real k * coils_step)) \<and>
     length rs = coils_points * coils_number"
proof -
  assume pos: "0 < coils_points" and turns: "0 < coils_number"
  obtain dls where "ring_dl_vectors coils_radius coils_points = Inr dls"
    using ring_dl_vectors_ok[OF pos] by blast
  then show ?thesis
    using turns length_concat_rings[of coils_radius coils_points "\<lambda>k. real k * coils_step"
        "[0..<coils_number]"]
    by (auto simp: mag_all_segment_origins_def r_primes_coil_def mag_z_positions_def
        np_concatenate_def length_segment_origins comp_def dest: segment_origins_z)
qed

text \<open>No turns: \<^verbatim>\<open>simulator_.py\<close> stops at \<^verbatim>\<open>np.concatenate\<close>.\<close>

lemma r_primes_coil_no_turns:
  "0 < coils_points \<Longrightarrow> r_primes_coil 0 coils_step coils_radius coils_points = Inl ValueError"
proof -
  assume pos: "0 < coils_points"
  obtain dls where "ring_dl_vectors coils_radius coils_points = Inr dls"
    using ring_dl_vectors_ok[OF pos] by blast
  then show ?thesis
    by (simp add: r_primes_coil_def mag_all_segment_origins_def mag_z_positions_def
        np_concatenate_def)
qed

text \<open>\<^verbatim>\<open>simulator.py\<close>: one ring for every sample of its range.\<close>

lemma grid_rings:
  "0 < coils_points \<Longrightarrow> grid_z_positions coils_number coils_step = Inr zs \<Longrightarrow> zs \<noteq> [] \<Longrightarrow>
   \<exists>rings rs.
     grid_all_segment_origins coils_number coils_step coils_radius coils_points = Inr rings \<and>
     r_primes coils_number coils_step coils_radius coils_points = Inr rs \<and>
     rs = concat rings \<and>
     length rings = length zs \<and>
     length rs = coils_points * length zs"
proof -
  assume pos: "0 < coils_points"
    and z: "grid_z_positions coils_number coils_step = Inr zs" and ne: "zs \<noteq> []"
  obtain dls where d: "ring_dl_vectors coils_radius coils_points = Inr dls"
    using ring_dl_vectors_ok[OF pos] by blast
  show ?thesis
    using d z ne length_concat_rings[of coils_radius coils_points "\<lambda>z. z" zs]
    by (simp add: grid_all_segment_origins_def r_primes_def np_concatenate_def)
qed

text \<open>
  Claim C1. For every positive resolution P and turn count T the generator is to build
  exactly T rings, at the offsets 0, s, ..., (T-1)*s, hence P * T segments.
  \<^verbatim>\<open>simulator_.py\<close> does (lemma \<open>mag_rings\<close>). \<^verbatim>\<open>simulator.py\<close> does not: with
  its own constants (3 turns, step 0.1, 1000 points) it loops over the four offsets
  0, 0.1, 0.2, 0.3 and collects 4000 segment origins instead of 3000.
\<close>

theorem grid_script_builds_one_ring_too_many:
  "grid_z_positions 3 (1 / 10) = Inr [0, 1 / 10, 2 / 10, 3 / 10] \<and>
   (\<exists>rings rs.
      grid_all_segment_origins 3 (1 / 10) 1 1000 = Inr rings \<and> length rings = 4 \<and>
      r_primes 3 (1 / 10) 1 1000 = Inr rs \<and> length rs = 4000 \<and> length rs \<noteq> 1000 * 3)"
proof -
  have z: "grid_z_positions 3 (1 / 10) = Inr [0, 1 / 10, 2 / 10, 3 / 10]"
    by (simp add: grid_z_positions_def np_arange_def upt_conv_Cons)
  have "\<exists>rings rs.
      grid_all_segment_origins 3 (1 / 10) 1 1000 = Inr rings \<and> length rings = 4 \<and>
      r_primes 3 (1 / 10) 1 1000 = Inr rs \<and> length rs = 4000 \<and> length rs \<noteq> 1000 * 3"
    using grid_rings[of 1000 3 "1 / 10" "[0, 1 / 10, 2 / 10, 3 / 10]" 1] z by auto
  with z show ?thesis by blast
qed

section \<open>Properties of the Field Evaluators\<close>

lemma linalg_norm_zero_iff: "linalg_norm v = 0 \<longleftrightarrow> v = (0, 0, 0)"
proof (cases v)
  case (fields a b c)
  have "a\<^sup>2 + b\<^sup>2 + c\<^sup>2 = 0 \<longleftrightarrow> a = 0 \<and> b = 0 \<and> c = 0"
    by (metis add_nonneg_eq_0_iff add_nonneg_nonneg zero_le_power2 zero_eq_power2)
  then show ?thesis using fields by simp
qed

lemma vsub_zero_iff: "vsub p q = (0, 0, 0) \<longleftrightarrow> p = q"
  by (cases p, cases q) auto

lemma linalg_norm_vsub_zero_iff: "linalg_norm (vsub p q) = 0 \<longleftrightarrow> p = q"
  by (simp add: linalg_norm_zero_iff vsub_zero_iff)

text \<open>The entries of \<^verbatim>\<open>r_norm3\<close> are never the number zero.\<close>

lemma r_norm3_never_zero: "r_norm3 (linalg_norm v) \<noteq> Finite 0"
  by (simp add: r_norm3_def)

lemma dB_row_closed:
  "dB_row km dl r =
     Some (if linalg_norm r = 0 then (0, 0, 0)
           else smult (km / linalg_norm r ^ 3) (np_cross dl r))"
  by (cases dl, cases r) (simp add: dB_row_def r_norm3_def Let_def)

lemma foldl_np_add_Some:
  "foldl np_add (Some a) (map (\<lambda>x. Some (f x)) xs) = Some (foldl vadd a (map f xs))"
  by (induction xs arbitrary: a) simp_all

lemma coil_at_point_closed:
  "magnetic_field_from_coil_at_point p rps dls km =
     Some (np_sum_rows
       (map (\<lambda>(dl, r'). if r' = p then (0, 0, 0)
                else smult (km / linalg_norm (vsub p r') ^ 3) (np_cross dl (vsub p r')))
          (zip dls rps)))"
proof -
  have "map (\<lambda>(dl, r). dB_row km dl r) (zip dls (map (vsub p) rps))
      = map (\<lambda>s. Some ((\<lambda>(dl, r'). if r' = p then (0, 0, 0)
            else smult (km / linalg_norm (vsub p r') ^ 3) (np_cross dl (vsub p r'))) s))
          (zip dls rps)"
    by (auto simp: zip_map2 dB_row_closed linalg_norm_vsub_zero_iff)
  then show ?thesis
    unfolding magnetic_field_from_coil_at_point_def Let_def np_sum_axis0_def np_sum_rows_def
    by (simp only: foldl_np_add_Some)
qed

text \<open>
  Claim C5. Where the field point \<open>p\<close> coincides with a segment origin, the cubed norm
  is taken as infinite and the segment contributes exactly the zero vector; every other
  segment contributes \<open>km * (dl \<times> r) / |r|^3\<close>; no division by zero occurs, so the
  evaluator always returns a vector: the sum of these contributions.
\<close>

theorem biot_savart_coincident_segment:
  "length rps = length dls \<Longrightarrow>
   r_norm3 (linalg_norm (vsub p p)) = Infinite \<and>
   dB_row km dl (vsub p p) = Some (0, 0, 0) \<and>
   (origin \<noteq> p \<longrightarrow>
      dB_row km dl (vsub p origin) =
        Some (smult (km / linalg_norm (vsub p origin) ^ 3) (np_cross dl (vsub p origin)))) \<and>
   magnetic_field_from_coil_at_point p rps dls km =
     Some (np_sum_rows
       (map (\<lambda>(dl, r'). if r' = p then (0, 0, 0)
                else smult (km / linalg_norm (vsub p r') ^ 3) (np_cross dl (vsub p r')))
          (zip dls rps)))"
  by (simp add: dB_row_closed linalg_norm_vsub_zero_iff coil_at_point_closed r_norm3_def)

theorem biot_savart_coincident_segment_witness:
  "dB_row 2 (0, 1, 0) (vsub (0, 0, 0) (0, 0, 0)) = Some (0, 0, 0) \<and>
   dB_row 2 (0, 1, 0) (vsub (0, 0, 0) (1, 0, 0)) = Some (0, 0, 2) \<and>
   magnetic_field_from_coil_at_point (0, 0, 0) [(0, 0, 0), (1, 0, 0)] [(0, 1, 0), (0, 1, 0)] 2
     = Some (0, 0, 2)"
  using biot_savart_coincident_segment
    [of "[(0, 0, 0), (1, 0, 0)]" "[(0, 1, 0), (0, 1, 0)]" "(0, 0, 0)" 2 "(0, 1, 0)" "(1, 0, 0)"]
  by (simp add: np_sum_rows_def vzero_def)

text \<open>Without its guard the function would divide the zero vector by the zero norm,
  which gives no real vector.\<close>

lemma dipole_unguarded_division:
  "np_divide (vsub p p) (Finite (linalg_norm (vsub p p))) = None"
proof -
  have "vsub p p = (0, 0, 0)" by (simp add: vsub_zero_iff)
  then show ?thesis by simp
qed

lemma dipole_away:
  assumes "p \<noteq> d"
  shows "magnetic_field_from_dipole p d m =
        Some (let r_vec = vsub p d; r_hat = smult (1 / linalg_norm r_vec) r_vec
              in smult ((mu_0 / (4 * pi)) / linalg_norm r_vec ^ 3)
                   (vsub (smult 3 (smult (np_dot m r_hat) r_hat)) m))"
proof -
  obtain r1 r2 r3 where r: "vsub p d = (r1, r2, r3)" by (cases "vsub p d") auto
  obtain m1 m2 m3 where m: "m = (m1, m2, m3)" by (cases m) auto
  define n where "n = linalg_norm (r1, r2, r3)"
  have n: "n \<noteq> 0"
    using assms r linalg_norm_vsub_zero_iff[of p d] by (simp add: n_def)
  have hat: "np_divide (r1, r2, r3) (Finite n) = Some (smult (1 / n) (r1, r2, r3))"
    using n by simp
  have fin: "np_divide (smult c (t1, t2, t3)) (Finite (n ^ 3)) = Some (smult (c / n ^ 3) (t1, t2, t3))"
    for c t1 t2 t3
    using n by simp
  have tm: "vsub (smult (3 * np_dot (m1, m2, m3) rh) rh) (m1, m2, m3)
      = vsub (smult 3 (smult (np_dot (m1, m2, m3) rh) rh)) (m1, m2, m3)" for rh
    by (cases rh) (simp add: algebra_simps)
  obtain t1 t2 t3 where t: "vsub (smult 3 (smult (np_dot (m1, m2, m3) (smult (1 / n) (r1, r2, r3)))
      (smult (1 / n) (r1, r2, r3)))) (m1, m2, m3) = (t1, t2, t3)"
    by (metis prod_cases3)
  show ?thesis
    unfolding magnetic_field_from_dipole_def Let_def r m n_def[symmetric]
    using n by (simp only: hat option.case tm t fin if_False)
qed

text \<open>
  Claim C6. At the dipole's own position the dipole evaluator returns exactly the zero
  vector rather than failing; at every other field point it returns
  \<open>(mu_0 / 4 pi) * (3 * r_hat * (m . r_hat) - m) / |r_vec|^3\<close>.
\<close>

theorem dipole_field:
  "magnetic_field_from_dipole p p m = Some (0, 0, 0) \<and>
   (p \<noteq> d \<longrightarrow>
      magnetic_field_from_dipole p d m =
        Some (let r_vec = vsub p d; r_hat = smult (1 / linalg_norm r_vec) r_vec
              in smult ((mu_0 / (4 * pi)) / linalg_norm r_vec ^ 3)
                   (vsub (smult 3 (smult (np_dot m r_hat) r_hat)) m)))"
proof -
  have "magnetic_field_from_dipole p p m = Some (0, 0, 0)"
    by (simp add: magnetic_field_from_dipole_def Let_def linalg_norm_vsub_zero_iff)
  then show ?thesis using dipole_away[of p d m] by blast
qed

theorem dipole_field_witness:
  "magnetic_field_from_dipole (0, 0, 0) (0, 0, 0) (0, 0, - 50) = Some (0, 0, 0) \<and>
   magnetic_field_from_dipole (0, 0, 1) (0, 0, 0) (0, 0, - 50) = Some (0, 0, - (1 / 10 ^ 5))"
  using dipole_field[of "(0, 0, 0)" "(0, 0, - 50)" "(0, 0, 0)"]
    dipole_field[of "(0, 0, 1)" "(0, 0, - 50)" "(0, 0, 0)"]
  by (simp add: Let_def mu_0_def)

section \<open>Properties of the Field Sampling Grid\<close>

lemma map2_map_same: "map2 h (map g xs) (map f xs) = map (\<lambda>x. h (g x) (f x)) xs"
  by (induction xs) simp_all

lemma grid_add_map:
  "grid_add (map (map (map g)) r) (map (map (map f)) r) =
     map (map (map (\<lambda>p. np_add (g p) (f p)))) r"
  unfolding grid_add_def by (simp add: map2_map_same)

lemma foldl_grid_add_map:
  "foldl grid_add (map (map (map g)) r) (map (\<lambda>s. map (map (map (f s))) r) segs)
     = map (map (map (\<lambda>p. foldl np_add (g p) (map (\<lambda>s. f s p) segs)))) r"
proof (induction segs arbitrary: g)
  case Nil
  show ?case by simp
next
  case (Cons s segs)
  show ?case by (simp add: grid_add_map Cons.IH)
qed

text \<open>The broadcast evaluation is the single-point evaluation at every lattice point.\<close>

lemma grid_B_pointwise:
  "grid_B x_dim y_dim z_dim rps dls km =
     map (map (map (\<lambda>p. magnetic_field_from_coil_at_point p rps dls km)))
       (grid_points x_dim y_dim z_dim)"
proof -
  have 1: "map (\<lambda>(dl, r_prime). grid_dB_slice km r r_prime dl) (zip dls rps)
     = map (\<lambda>s. map (map (map (\<lambda>p. dB_row km (fst s) (vsub p (snd s))))) r) (zip dls rps)"
    for r
    by (simp add: grid_dB_slice_def case_prod_beta)
  have 2: "map (\<lambda>(dl, r). dB_row km dl r) (zip dls (map (vsub p) rps))
     = map (\<lambda>s. dB_row km (fst s) (vsub p (snd s))) (zip dls rps)" for p
    by (simp add: zip_map2 case_prod_beta)
  show ?thesis
    unfolding grid_B_def Let_def grid_sum_axis0_def 1 foldl_grid_add_map
      magnetic_field_from_coil_at_point_def np_sum_axis0_def 2 ..
qed

text \<open>
  Claim C2. For every coil geometry and every lattice point of the sampling grid, the
  field vector of the whole-grid (broadcast) Biot-Savart evaluation equals the field
  vector of the single-point evaluation at the same coordinates.
\<close>

theorem grid_equals_pointwise:
  "length rps = length dls \<Longrightarrow>
   i < length x_dim \<Longrightarrow> j < length y_dim \<Longrightarrow> k < length z_dim \<Longrightarrow>
   grid_B x_dim y_dim z_dim rps dls km ! i ! j ! k
     = magnetic_field_from_coil_at_point (x_dim ! i, y_dim ! j, z_dim ! k) rps dls km"
  by (simp add: grid_B_pointwise grid_points_def)

theorem grid_equals_pointwise_witness:
  "grid_B [0, 1] [0, 2] [5] [(0, 0, 0), (1, 0, 0)] [(0, 1, 0), (0, 1, 0)] 2 ! 1 ! 0 ! 0
     = magnetic_field_from_coil_at_point (1, 0, 5) [(0, 0, 0), (1, 0, 0)] [(0, 1, 0), (0, 1, 0)] 2"
  using grid_equals_pointwise
    [of "[(0, 0, 0), (1, 0, 0)]" "[(0, 1, 0), (0, 1, 0)]" 1 "[0, 1]" 0 "[0, 2]" 0 "[5]" 2]
  by simp

section \<open>Properties of the inverse-cube model (\<^verbatim>\<open>2d_sim.py\<close>)\<close>

lemma B_field_denominator_pos: "x \<le> coil_position \<Longrightarrow> 0 < B_field_denominator x"
proof -
  assume "x \<le> coil_position"
  then have "0 \<le> (coil_position - x) ^ 3" by simp
  then have "0 < (coil_position - x) ^ 3 + 1 / 10 ^ 9"
    by (rule add_nonneg_pos) simp
  then show ?thesis by (simp add: B_field_denominator_def Let_def)
qed

text \<open>On the frames the driver supplies the magnet stays before the coil, where the divisor
  is positive and the field is defined.\<close>

lemma faraday_position_le:
  "frame \<le> 1000 \<Longrightarrow> faraday_x0 + faraday_v * (real frame * faraday_dt) \<le> coil_position"
  by (simp add: faraday_x0_def faraday_v_def faraday_dt_def coil_position_def)

lemma B_field_on_run:
  "frame \<le> 1000 \<Longrightarrow>
   B_field (faraday_x0 + faraday_v * (real frame * faraday_dt)) =
     Inr (mu_0 * faraday_m /
            B_field_denominator (faraday_x0 + faraday_v * (real frame * faraday_dt)))"
proof -
  assume "frame \<le> 1000"
  then have "0 < B_field_denominator (faraday_x0 + faraday_v * (real frame * faraday_dt))"
    by (intro B_field_denominator_pos faraday_position_le)
  then show ?thesis
    by (simp add: B_field_def)
qed

lemma faraday_flux_pos: "frame \<le> 1000 \<Longrightarrow> 0 < faraday_flux frame"
proof -
  assume "frame \<le> 1000"
  then have "0 < B_field_denominator (faraday_x0 + faraday_v * (real frame * faraday_dt))"
    by (intro B_field_denominator_pos faraday_position_le)
  then show ?thesis
    by (simp add: faraday_flux_def faraday_N_def faraday_A_def faraday_m_def mu_0_def)
qed

lemma faraday_update_zero:
  "faraday_update 0 st =
     Inr \<lparr> x_vals = x_vals st @ [0], flux_vals = flux_vals st @ [faraday_flux 0],
           emf_vals = emf_vals st @ [0] \<rparr>"
  using B_field_on_run[of 0]
  by (simp add: faraday_update_def Let_def faraday_flux_def)

lemma faraday_update_later:
  assumes "n \<noteq> 0" and "n \<le> 1000" and "flux_vals st \<noteq> []"
  shows "faraday_update n st =
     Inr \<lparr> x_vals = x_vals st @ [real n * faraday_dt],
           flux_vals = flux_vals st @ [faraday_flux n],
           emf_vals = emf_vals st @
             [- (faraday_flux n - last (flux_vals st)) / faraday_dt] \<rparr>"
proof -
  have 1: "py_index_from_end (flux_vals st @ [f]) (Suc 0) = Inr f" for f
    by (simp add: py_index_from_end_def)
  have 2: "py_index_from_end (flux_vals st @ [f]) 2 = Inr (last (flux_vals st))" for f
    using assms(3) by (cases "flux_vals st" rule: rev_cases)
      (simp_all add: py_index_from_end_def nth_append)
  show ?thesis
    using assms(1) B_field_on_run[OF assms(2)]
    by (simp add: faraday_update_def Let_def 1 2 faraday_flux_def)
qed

text \<open>A frame other than the first on an empty history stops at \<^verbatim>\<open>flux_vals[-2]\<close>.\<close>

lemma faraday_update_no_history:
  assumes "n \<noteq> 0" and "n \<le> 1000" and "flux_vals st = []"
  shows "faraday_update n st = Inl IndexError"
  using assms(1,3) B_field_on_run[OF assms(2)]
  by (simp add: faraday_update_def Let_def py_index_from_end_def)

lemma faraday_update_step:
  assumes "faraday_inv n st" and "n \<le> 1000"
  shows "\<exists>st'. faraday_update n st = Inr st' \<and> faraday_inv (Suc n) st'"
proof -
  have len: "length (flux_vals st) = n" "length (emf_vals st) = n" "length (x_vals st) = n"
    using assms(1) by (simp_all add: faraday_inv_def)
  have old: "\<And>k. k < n \<Longrightarrow> x_vals st ! k = real k * faraday_dt \<and>
        flux_vals st ! k = faraday_flux k \<and>
        emf_vals st ! k =
        (if k = 0 then 0 else - (flux_vals st ! k - flux_vals st ! (k - 1)) / faraday_dt)"
    using assms(1) by (simp add: faraday_inv_def)
  show ?thesis
  proof (cases "n = 0")
    case True
    then have "faraday_update n st = Inr \<lparr> x_vals = x_vals st @ [0],
        flux_vals = flux_vals st @ [faraday_flux 0], emf_vals = emf_vals st @ [0] \<rparr>"
      using faraday_update_zero[of st] by simp
    moreover have "faraday_inv (Suc n) \<lparr> x_vals = x_vals st @ [0],
        flux_vals = flux_vals st @ [faraday_flux 0], emf_vals = emf_vals st @ [0] \<rparr>"
      using True len by (simp add: faraday_inv_def)
    ultimately show ?thesis by simp
  next
    case False
    then have ne: "flux_vals st \<noteq> []" using len by auto
    let ?st' = "\<lparr> x_vals = x_vals st @ [real n * faraday_dt],
            flux_vals = flux_vals st @ [faraday_flux n],
            emf_vals = emf_vals st @ [- (faraday_flux n - last (flux_vals st)) / faraday_dt] \<rparr>"
    have upd: "faraday_update n st = Inr ?st'"
      by (rule faraday_update_later[OF False assms(2) ne])
    have lastf: "last (flux_vals st) = flux_vals st ! (n - 1)"
      using ne len by (simp add: last_conv_nth)
    have "x_vals ?st' ! k = real k * faraday_dt \<and>
        flux_vals ?st' ! k = faraday_flux k \<and>
        emf_vals ?st' ! k =
        (if k = 0 then 0 else - (flux_vals ?st' ! k - flux_vals ?st' ! (k - 1)) / faraday_dt)"
      if "k < Suc n" for k
    proof (cases "k < n")
      case True
      then have k1: "k - 1 < n" by simp
      show ?thesis using old[OF True] True k1 len by (simp add: nth_append)
    next
      case False
      then have "k = n" using that by simp
      then show ?thesis using \<open>n \<noteq> 0\<close> len lastf by (simp add: nth_append)
    qed
    then have "faraday_inv (Suc n) ?st'"
      using len by (simp add: faraday_inv_def)
    with upd show ?thesis by blast
  qed
qed

lemma faraday_run_from:
  "faraday_inv a st \<Longrightarrow> a + len \<le> 1001 \<Longrightarrow>
   \<exists>st'. faraday_run [a..<a + len] st = Inr st' \<and> faraday_inv (a + len) st'"
proof (induction len arbitrary: a st)
  case 0
  then show ?case by simp
next
  case (Suc len)
  from Suc.prems obtain st1 where s1: "faraday_update a st = Inr st1" "faraday_inv (Suc a) st1"
    using faraday_update_step[of a st] by auto
  have "Suc a + len \<le> 1001" using Suc.prems by simp
  from Suc.IH[OF s1(2) this] obtain st' where
    s2: "faraday_run [Suc a..<Suc a + len] st1 = Inr st'" "faraday_inv (Suc a + len) st'"
    by blast
  have "[a..<a + Suc len] = a # [Suc a..<Suc a + len]"
    by (simp add: upt_conv_Cons del: upt_Suc)
  then have "faraday_run [a..<a + Suc len] st = Inr st'"
    using s1(1) s2(1) by (simp del: upt_Suc)
  with s2(2) show ?case by auto
qed

lemma faraday_init_inv: "faraday_inv 0 faraday_init"
  by (simp add: faraday_inv_def faraday_init_def)

section \<open>Properties of the inverse-square model (\<^verbatim>\<open>2d_sim_gemini.py\<close>)\<close>

lemma lenz_denominator_bound:
  "(coil_width / 2) ^ 2 \<le> (x - coil_center_x) ^ 2 + (coil_width / 2) ^ 2"
  "0 < (coil_width / 2) ^ 2"
  "0 < (x - coil_center_x) ^ 2 + (coil_width / 2) ^ 2"
proof -
  show a: "(coil_width / 2) ^ 2 \<le> (x - coil_center_x) ^ 2 + (coil_width / 2) ^ 2" by simp
  show b: "0 < (coil_width / 2) ^ 2" by (simp add: coil_width_def)
  from a b show "0 < (x - coil_center_x) ^ 2 + (coil_width / 2) ^ 2" by linarith
qed

lemma calculate_magnetic_field_at_coil_ok:
  "calculate_magnetic_field_at_coil x c w b = Inr (b / (\<bar>x - c\<bar> ^ 2 + 1 / 10))"
proof -
  have "0 < \<bar>x - c\<bar> ^ 2 + 1 / 10" by (rule add_nonneg_pos) simp_all
  then show ?thesis
    by (simp add: calculate_magnetic_field_at_coil_def py_div_def Let_def)
qed

lemma lenz_emf_closed:
  "lenz_emf (fs @ [phi]) = Inr (if fs = [] then 0 else - (phi - last fs) / 1)"
proof (cases fs rule: rev_cases)
  case Nil
  then show ?thesis by (simp add: lenz_emf_def)
next
  case (snoc ys y)
  then show ?thesis
    by (simp add: lenz_emf_def bind_err_def py_index_from_end_def nth_append Let_def)
qed

lemma lenz_phi_B_pos: "0 < lenz_phi_B x"
proof -
  have "0 < B_field_strength / ((lenz_next_x x - coil_center_x) ^ 2 + (coil_width / 2) ^ 2)"
    using lenz_denominator_bound(3)[of "lenz_next_x x"] by (simp add: B_field_strength_def)
  moreover have "0 < coil_width" "0 < coil_height" "0 < num_turns"
    by (simp_all add: coil_width_def coil_height_def num_turns_def)
  ultimately show ?thesis unfolding lenz_phi_B_def by (intro mult_pos_pos)
qed

text \<open>The indicator block raises exactly when it enters one of its two drawing branches.\<close>

lemma lenz_indicators_raises:
  "fst (lenz_indicators e c d) =
     (if \<bar>c\<bar> > 1 / 100 \<and> e \<noteq> 0 then Some TypeError else None)"
  by (auto simp: lenz_indicators_def current_arrow_set_data_def Let_def)

lemma lenz_indicators_hidden:
  "\<not> (\<bar>c\<bar> > 1 / 100 \<and> e \<noteq> 0) \<Longrightarrow> snd (lenz_indicators e c d) = hide_indicators d"
  by (auto simp: lenz_indicators_def current_arrow_set_data_def Let_def hide_indicators_def)

lemma lenz_indicators_raised:
  "\<bar>c\<bar> > 1 / 100 \<Longrightarrow> e \<noteq> 0 \<Longrightarrow>
   snd (lenz_indicators e c d) =
     d\<lparr> current_arrow_alpha := 1,
        current_arrow_dy := (if e < 0 then - (1 / 10) * sgn c else (1 / 10) * sgn c) \<rparr>"
  by (auto simp: lenz_indicators_def current_arrow_set_data_def Let_def)

lemma lenz_animate_raises:
  "fst (lenz_animate frame st) =
     (if \<bar>lenz_step_emf st / coil_resistance\<bar> > 1 / 100 \<and> lenz_step_emf st \<noteq> 0
      then Some TypeError else None)"
proof -
  have d: "coil_width \<noteq> 0" by (simp add: coil_width_def)
  have r: "coil_resistance \<noteq> 0" by (simp add: coil_resistance_def)
  show ?thesis
    unfolding lenz_animate_def Let_def
    by (simp add: calculate_magnetic_field_at_coil_ok py_div_def d r lenz_emf_closed
        lenz_indicators_raises lenz_step_emf_def lenz_phi_B_def lenz_next_x_def)
qed

lemma lenz_animate_state:
  "magnet_x (snd (lenz_animate frame st)) = lenz_next_x (magnet_x st)"
  "flux_history (snd (lenz_animate frame st)) = flux_history st @ [lenz_phi_B (magnet_x st)]"
  "time_steps (snd (lenz_animate frame st)) = time_steps st @ [frame]"
  "emf_history (snd (lenz_animate frame st)) =
     (if fst (lenz_animate frame st) = None then emf_history st @ [lenz_step_emf st]
      else emf_history st)"
  "current_history (snd (lenz_animate frame st)) =
     (if fst (lenz_animate frame st) = None
      then current_history st @ [lenz_step_emf st / coil_resistance]
      else current_history st)"
  "display (snd (lenz_animate frame st)) =
     snd (lenz_indicators (lenz_step_emf st) (lenz_step_emf st / coil_resistance) (display st))"
proof -
  have d: "coil_width \<noteq> 0" by (simp add: coil_width_def)
  have r: "coil_resistance \<noteq> 0" by (simp add: coil_resistance_def)
  note defs = lenz_animate_def Let_def calculate_magnetic_field_at_coil_ok py_div_def d r
    lenz_emf_closed lenz_indicators_raises lenz_step_emf_def lenz_phi_B_def lenz_next_x_def
  show "magnet_x (snd (lenz_animate frame st)) = lenz_next_x (magnet_x st)"
    by (simp add: defs)
  show "flux_history (snd (lenz_animate frame st)) =
      flux_history st @ [lenz_phi_B (magnet_x st)]"
    by (simp add: defs)
  show "time_steps (snd (lenz_animate frame st)) = time_steps st @ [frame]"
    by (simp add: defs)
  show "emf_history (snd (lenz_animate frame st)) =
     (if fst (lenz_animate frame st) = None then emf_history st @ [lenz_step_emf st]
      else emf_history st)"
    by (simp add: defs)
  show "current_history (snd (lenz_animate frame st)) =
     (if fst (lenz_animate frame st) = None
      then current_history st @ [lenz_step_emf st / coil_resistance]
      else current_history st)"
    by (simp add: defs)
  show "display (snd (lenz_animate frame st)) =
     snd (lenz_indicators (lenz_step_emf st) (lenz_step_emf st / coil_resistance) (display st))"
    by (simp add: defs)
qed

lemma lenz_animate_outcome:
  "fst (lenz_animate frame st) = None \<or> fst (lenz_animate frame st) = Some TypeError"
  by (simp add: lenz_animate_raises)

lemma lenz_animate_recorded:
  assumes "lenz_inv st"
  shows "lenz_recorded (snd (lenz_animate frame st))"
    and "fst (lenz_animate frame st) = None \<Longrightarrow> lenz_inv (snd (lenz_animate frame st))"
proof -
  let ?st' = "snd (lenz_animate frame st)"
  let ?n = "length (flux_history st)"
  let ?phi = "lenz_phi_B (magnet_x st)"
  let ?E = "lenz_step_emf st"
  have len: "length (emf_history st) = ?n" "length (current_history st) = ?n"
    using assms by (simp_all add: lenz_inv_def lenz_recorded_def)
  have old: "\<And>k. k < ?n \<Longrightarrow>
        emf_history st ! k =
          (if k = 0 then 0 else - (flux_history st ! k - flux_history st ! (k - 1)) / 1) \<and>
        current_history st ! k = emf_history st ! k / coil_resistance"
    using assms by (simp add: lenz_inv_def lenz_recorded_def)
  have pos_old: "list_all (\<lambda>f. 0 < f) (flux_history st)"
    using assms by (simp add: lenz_inv_def lenz_recorded_def)
  have flux': "flux_history ?st' = flux_history st @ [?phi]"
    by (rule lenz_animate_state(2))
  have pos: "list_all (\<lambda>f. 0 < f) (flux_history ?st')"
    using pos_old lenz_phi_B_pos[of "magnet_x st"] by (simp add: flux')
  have E: "?E = (if ?n = 0 then 0 else - (?phi - flux_history st ! (?n - 1)) / 1)"
    by (simp add: lenz_step_emf_def last_conv_nth)
  have keep: "emf_history ?st' ! k =
          (if k = 0 then 0 else - (flux_history ?st' ! k - flux_history ?st' ! (k - 1)) / 1) \<and>
        current_history ?st' ! k = emf_history ?st' ! k / coil_resistance"
    if "k < ?n" for k
  proof -
    have k1: "k - 1 < ?n" using that by simp
    have e: "emf_history ?st' ! k = emf_history st ! k"
      using that len by (simp add: lenz_animate_state(4) nth_append)
    have c: "current_history ?st' ! k = current_history st ! k"
      using that len by (simp add: lenz_animate_state(5) nth_append)
    show ?thesis
      using old[OF that] that k1 by (simp add: e c flux' nth_append)
  qed
  show rec: "lenz_recorded ?st'"
  proof (cases "fst (lenz_animate frame st) = None")
    case True
    have eh: "emf_history ?st' = emf_history st @ [?E]"
      and ch: "current_history ?st' = current_history st @ [?E / coil_resistance]"
      using True by (simp_all add: lenz_animate_state(4,5))
    have new: "emf_history ?st' ! k =
          (if k = 0 then 0 else - (flux_history ?st' ! k - flux_history ?st' ! (k - 1)) / 1) \<and>
        current_history ?st' ! k = emf_history ?st' ! k / coil_resistance"
      if "k < Suc ?n" for k
    proof (cases "k < ?n")
      case True
      then show ?thesis by (rule keep)
    next
      case False
      then have k: "k = ?n" using that by simp
      show ?thesis
        using len E by (simp add: k eh ch flux' nth_append)
    qed
    show ?thesis
      unfolding lenz_recorded_def using new pos len by (simp add: eh ch flux')
  next
    case False
    have eh: "emf_history ?st' = emf_history st"
      and ch: "current_history ?st' = current_history st"
      using False by (simp_all add: lenz_animate_state(4,5))
    show ?thesis
      unfolding lenz_recorded_def using keep pos len by (simp add: eh ch flux')
  qed
  show "lenz_inv ?st'" if "fst (lenz_animate frame st) = None"
    using rec that len by (simp add: lenz_inv_def lenz_animate_state(4) flux')
qed

text \<open>A run never loses recorded entries.\<close>

lemma lenz_run_grows:
  "length (emf_history st) \<le> length (emf_history (snd (lenz_run frames st))) \<and>
   length (flux_history st) \<le> length (flux_history (snd (lenz_run frames st)))"
proof (induction frames arbitrary: st)
  case Nil
  show ?case by simp
next
  case (Cons f frames)
  let ?st1 = "snd (lenz_animate f st)"
  have 1: "length (emf_history st) \<le> length (emf_history ?st1)"
    "length (flux_history st) \<le> length (flux_history ?st1)"
    by (simp_all add: lenz_animate_state)
  show ?case
  proof (cases "fst (lenz_animate f st)")
    case None
    then have "snd (lenz_run (f # frames) st) = snd (lenz_run frames ?st1)"
      by (simp add: Let_def)
    then show ?thesis using Cons.IH[of ?st1] 1 by simp
  next
    case (Some e)
    then have "snd (lenz_run (f # frames) st) = ?st1"
      by (simp add: Let_def)
    then show ?thesis using 1 by simp
  qed
qed

lemma lenz_run_recorded:
  "lenz_inv st \<Longrightarrow>
   lenz_recorded (snd (lenz_run frames st)) \<and>
   (fst (lenz_run frames st) = None \<or> fst (lenz_run frames st) = Some TypeError) \<and>
   (fst (lenz_run frames st) = None \<longrightarrow>
      lenz_inv (snd (lenz_run frames st)) \<and>
      length (flux_history (snd (lenz_run frames st))) =
        length (flux_history st) + length frames)"
proof (induction frames arbitrary: st)
  case Nil
  then show ?case by (simp add: lenz_inv_def)
next
  case (Cons f frames)
  let ?st1 = "snd (lenz_animate f st)"
  show ?case
  proof (cases "fst (lenz_animate f st)")
    case None
    then have run: "lenz_run (f # frames) st = lenz_run frames ?st1"
      by (simp add: Let_def)
    have inv1: "lenz_inv ?st1"
      using lenz_animate_recorded(2)[OF Cons.prems] None by simp
    have "length (flux_history ?st1) = Suc (length (flux_history st))"
      by (simp add: lenz_animate_state(2))
    then show ?thesis
      unfolding run using Cons.IH[OF inv1] by simp
  next
    case (Some e)
    then have run: "lenz_run (f # frames) st = lenz_animate f st"
      by (simp add: Let_def)
    have "e = TypeError"
      using Some lenz_animate_outcome[of f st] by simp
    then show ?thesis
      unfolding run using Some lenz_animate_recorded(1)[OF Cons.prems] by simp
  qed
qed

lemma lenz_init_inv: "lenz_inv (lenz_init st)"
  by (simp add: lenz_inv_def lenz_recorded_def lenz_init_def)

text \<open>The first step after \<^verbatim>\<open>init()\<close> has no history to difference against, so it
  records the EMF zero and does not raise.\<close>

lemma lenz_first_step:
  "flux_history st = [] \<Longrightarrow>
   fst (lenz_animate frame st) = None \<and>
   emf_history (snd (lenz_animate frame st)) = emf_history st @ [0]"
  by (simp add: lenz_animate_raises lenz_animate_state(4) lenz_step_emf_def)

lemma lenz_run_records_first:
  assumes "flux_history st = []" and "frames \<noteq> []"
  shows "length (emf_history st) < length (emf_history (snd (lenz_run frames st)))"
proof -
  obtain f rest where fr: "frames = f # rest" using assms(2) by (cases frames) auto
  let ?st1 = "snd (lenz_animate f st)"
  have 1: "fst (lenz_animate f st) = None" "emf_history ?st1 = emf_history st @ [0]"
    using lenz_first_step[OF assms(1), of f] by simp_all
  then have "snd (lenz_run frames st) = snd (lenz_run rest ?st1)"
    by (simp add: fr Let_def)
  then show ?thesis
    using lenz_run_grows[of ?st1 rest] 1(2) by simp
qed

section \<open>Claims about the Time-Series Integrators and the Lenz-Direction Resolver\<close>

text \<open>
  Claim C3. In every run of the integrator, whatever the flux values are, the EMF
  recorded at step 0 is exactly 0, and at every step \<open>n \<ge> 1\<close> the EMF is
  \<open>- (flux[n] - flux[n-1]) / dt\<close> with a constant step interval
  (\<open>dt = 0.05\<close> in \<^verbatim>\<open>2d_sim.py\<close>, \<open>dt_sim = 1\<close> in \<^verbatim>\<open>2d_sim_gemini.py\<close>).
  For \<^verbatim>\<open>2d_sim.py\<close>: frame 0 on any history appends the flux of the frame and the EMF
  zero; a later frame on any non-empty history appends the flux of the frame and the
  negated difference to the last recorded flux over \<open>dt\<close>; a run over the first \<open>m\<close>
  frames records exactly these values. For \<^verbatim>\<open>2d_sim_gemini.py\<close>: the EMF computed from
  any history and any new flux is zero on an empty history and the negated difference to
  the last flux otherwise; a frame appends the flux of the new position and, unless the
  drawing of the indicators raises, this EMF; in a run after \<^verbatim>\<open>init()\<close>, from any
  magnet position, the first recorded EMF is zero and every recorded EMF is the negated
  backward difference of the recorded fluxes.
\<close>

theorem emf_backward_difference:
  "faraday_update 0 fs0 =
     Inr \<lparr> x_vals = x_vals fs0 @ [0], flux_vals = flux_vals fs0 @ [faraday_flux 0],
           emf_vals = emf_vals fs0 @ [0] \<rparr> \<and>
   (n \<noteq> 0 \<and> n \<le> 1000 \<and> flux_vals fs0 \<noteq> [] \<longrightarrow>
      faraday_update n fs0 =
        Inr \<lparr> x_vals = x_vals fs0 @ [real n * faraday_dt],
              flux_vals = flux_vals fs0 @ [faraday_flux n],
              emf_vals = emf_vals fs0 @
                [- (faraday_flux n - last (flux_vals fs0)) / faraday_dt] \<rparr>) \<and>
   (m \<le> faraday_frames \<longrightarrow>
      (\<exists>st. faraday_run [0..<m] faraday_init = Inr st \<and>
         length (flux_vals st) = m \<and> length (emf_vals st) = m \<and>
         (\<forall>k < m. flux_vals st ! k = faraday_flux k \<and>
            emf_vals st ! k =
              (if k = 0 then 0
               else - (flux_vals st ! k - flux_vals st ! (k - 1)) / faraday_dt)))) \<and>
   lenz_emf (fs @ [phi]) = Inr (if fs = [] then 0 else - (phi - last fs) / 1) \<and>
   flux_history (snd (lenz_animate frame ls)) = flux_history ls @ [lenz_phi_B (magnet_x ls)] \<and>
   (fst (lenz_animate frame ls) = None \<longrightarrow>
      emf_history (snd (lenz_animate frame ls)) =
        emf_history ls @
          [if flux_history ls = [] then 0
           else - (lenz_phi_B (magnet_x ls) - last (flux_history ls)) / 1]) \<and>
   (frames \<noteq> [] \<longrightarrow>
      emf_history (snd (lenz_run frames (lenz_init ls))) \<noteq> [] \<and>
      emf_history (snd (lenz_run frames (lenz_init ls))) ! 0 = 0) \<and>
   (\<forall>k < length (emf_history (snd (lenz_run frames (lenz_init ls)))).
      emf_history (snd (lenz_run frames (lenz_init ls))) ! k =
        (if k = 0 then 0
         else - (flux_history (snd (lenz_run frames (lenz_init ls))) ! k
                 - flux_history (snd (lenz_run frames (lenz_init ls))) ! (k - 1)) / 1))"
proof -
  have a: "faraday_update 0 fs0 =
     Inr \<lparr> x_vals = x_vals fs0 @ [0], flux_vals = flux_vals fs0 @ [faraday_flux 0],
           emf_vals = emf_vals fs0 @ [0] \<rparr>"
    by (rule faraday_update_zero)
  have b: "faraday_update n fs0 =
        Inr \<lparr> x_vals = x_vals fs0 @ [real n * faraday_dt],
              flux_vals = flux_vals fs0 @ [faraday_flux n],
              emf_vals = emf_vals fs0 @
                [- (faraday_flux n - last (flux_vals fs0)) / faraday_dt] \<rparr>"
    if "n \<noteq> 0 \<and> n \<le> 1000 \<and> flux_vals fs0 \<noteq> []"
    using that faraday_update_later[of n fs0] by blast
  have c: "\<exists>st. faraday_run [0..<m] faraday_init = Inr st \<and>
         length (flux_vals st) = m \<and> length (emf_vals st) = m \<and>
         (\<forall>k < m. flux_vals st ! k = faraday_flux k \<and>
            emf_vals st ! k =
              (if k = 0 then 0
               else - (flux_vals st ! k - flux_vals st ! (k - 1)) / faraday_dt))"
    if "m \<le> faraday_frames"
  proof -
    have "0 + m \<le> 1001" using that by (simp add: faraday_frames_def)
    from faraday_run_from[OF faraday_init_inv this]
    obtain st where "faraday_run [0..<m] faraday_init = Inr st" "faraday_inv m st"
      by auto
    then show ?thesis unfolding faraday_inv_def by blast
  qed
  have d: "lenz_emf (fs @ [phi]) = Inr (if fs = [] then 0 else - (phi - last fs) / 1)"
    by (rule lenz_emf_closed)
  have e: "flux_history (snd (lenz_animate frame ls)) =
      flux_history ls @ [lenz_phi_B (magnet_x ls)]"
    by (rule lenz_animate_state(2))
  have f: "emf_history (snd (lenz_animate frame ls)) =
        emf_history ls @
          [if flux_history ls = [] then 0
           else - (lenz_phi_B (magnet_x ls) - last (flux_history ls)) / 1]"
    if "fst (lenz_animate frame ls) = None"
    using that by (simp add: lenz_animate_state(4) lenz_step_emf_def)
  let ?st = "snd (lenz_run frames (lenz_init ls))"
  have rec: "lenz_recorded ?st"
    using lenz_run_recorded[OF lenz_init_inv, of frames ls] by simp
  have g: "emf_history ?st \<noteq> [] \<and> emf_history ?st ! 0 = 0" if "frames \<noteq> []"
  proof -
    have "flux_history (lenz_init ls) = []" by (simp add: lenz_init_def)
    from lenz_run_records_first[OF this that]
    have ne: "emf_history ?st \<noteq> []" by auto
    then have "0 < length (emf_history ?st)" by simp
    then have "emf_history ?st ! 0 = 0"
      using rec unfolding lenz_recorded_def by auto
    with ne show ?thesis by simp
  qed
  have h: "\<forall>k < length (emf_history ?st).
      emf_history ?st ! k =
        (if k = 0 then 0
         else - (flux_history ?st ! k - flux_history ?st ! (k - 1)) / 1)"
    using rec unfolding lenz_recorded_def by blast
  from a b c d e f g h show ?thesis by blast
qed

theorem emf_backward_difference_witness:
  "faraday_update 1 \<lparr> x_vals = [0], flux_vals = [7], emf_vals = [0] \<rparr> =
     Inr \<lparr> x_vals = [0, faraday_dt], flux_vals = [7, faraday_flux 1],
           emf_vals = [0, - (faraday_flux 1 - 7) / faraday_dt] \<rparr> \<and>
   (\<exists>st. faraday_run [0..<3] faraday_init = Inr st \<and> emf_vals st ! 0 = 0 \<and>
      flux_vals st ! 2 = faraday_flux 2 \<and>
      emf_vals st ! 2 = - (flux_vals st ! 2 - flux_vals st ! 1) / faraday_dt) \<and>
   emf_history (snd (lenz_animate 0 initial_lenz_state)) = [0] \<and>
   emf_history (snd (lenz_run [0, 1, 2] (lenz_init initial_lenz_state))) ! 0 = 0"
proof -
  have n: "fst (lenz_animate 0 initial_lenz_state) = None"
    by (simp add: lenz_first_step initial_lenz_state_def)
  show ?thesis
    using emf_backward_difference[of "\<lparr> x_vals = [0], flux_vals = [7], emf_vals = [0] \<rparr>" 1 3
      "[]" 0 0 initial_lenz_state "[0, 1, 2]"] n
    by (fastforce simp: faraday_frames_def initial_lenz_state_def)
qed

text \<open>
  Claim C8. When a step would move the source past the configured boundary, the next
  position is exactly the start bound of the sweep, with no overshoot carried over; in
  every other state the position advances by exactly the per-step velocity.
  \<^verbatim>\<open>simulator_.py\<close> sweeps downwards from \<open>magnet_initial_z\<close> to
  \<open>magnet_final_z\<close>; \<^verbatim>\<open>2d_sim_gemini.py\<close> sweeps to the right and starts again half a
  magnet length left of the left axis limit. Both assign the position first, so it holds
  of the state a frame leaves whether or not the frame raises later.
\<close>

theorem wrap_resets_to_start_bound:
  "(magnet_current_z st - mag_magnet_speed < magnet_final_z \<longrightarrow>
      magnet_current_z (mag_animate center_point st) = magnet_initial_z) \<and>
   (\<not> magnet_current_z st - mag_magnet_speed < magnet_final_z \<longrightarrow>
      magnet_current_z (mag_animate center_point st) = magnet_current_z st - mag_magnet_speed) \<and>
   (magnet_x ls + lenz_magnet_speed > snd ax_xlim + magnet_length / 2 \<longrightarrow>
      magnet_x (snd (lenz_animate frame ls)) = fst ax_xlim - magnet_length / 2) \<and>
   (\<not> magnet_x ls + lenz_magnet_speed > snd ax_xlim + magnet_length / 2 \<longrightarrow>
      magnet_x (snd (lenz_animate frame ls)) = magnet_x ls + lenz_magnet_speed)"
  by (simp add: mag_animate_def lenz_animate_state(1) lenz_next_x_def Let_def)

theorem wrap_resets_to_start_bound_witness:
  "magnet_current_z (mag_animate (0, 0, 1 / 10)
      \<lparr> magnet_current_z = - 4, magnet_z_positions = [], B_magnitude_at_center = [] \<rparr>) = 4 \<and>
   magnet_current_z (mag_animate (0, 0, 1 / 10)
      \<lparr> magnet_current_z = 4, magnet_z_positions = [], B_magnitude_at_center = [] \<rparr>)
     = 395 / 100 \<and>
   magnet_x (snd (lenz_animate 0 (initial_lenz_state\<lparr>magnet_x := 54 / 10\<rparr>))) = - (54 / 10) \<and>
   magnet_x (snd (lenz_animate 0 initial_lenz_state)) = - (29 / 10)"
  using wrap_resets_to_start_bound[of
      "\<lparr> magnet_current_z = - 4, magnet_z_positions = [], B_magnitude_at_center = [] \<rparr>"
      "(0, 0, 1 / 10)" "initial_lenz_state\<lparr>magnet_x := 54 / 10\<rparr>" 0]
    wrap_resets_to_start_bound[of
      "\<lparr> magnet_current_z = 4, magnet_z_positions = [], B_magnitude_at_center = [] \<rparr>"
      "(0, 0, 1 / 10)" initial_lenz_state 0]
  by (simp add: mag_magnet_speed_def magnet_final_z_def magnet_initial_z_def
      lenz_magnet_speed_def ax_xlim_def magnet_length_def initial_lenz_state_def
      initial_magnet_x_def)

text \<open>
  Claim C10. In the inverse-square model the divisor of the flux is bounded below by
  \<open>(coil_width / 2)^2 > 0\<close> at every magnet position, so no frame and no run raises
  \<^verbatim>\<open>ZeroDivisionError\<close>; the flux a frame appends is strictly positive, and so is
  every entry of the flux history of a run, however the run ends: the flux never changes
  sign. (The helper \<^verbatim>\<open>calculate_magnetic_field_at_coil\<close>, whose result the frame
  function does not use, has the divisor \<open>distance^2 + 0.1\<close> and does not divide by zero
  either.)
\<close>

theorem lenz_flux_positive:
  "(coil_width / 2) ^ 2 \<le> (x - coil_center_x) ^ 2 + (coil_width / 2) ^ 2 \<and>
   0 < (coil_width / 2) ^ 2 \<and>
   (\<exists>B. calculate_magnetic_field_at_coil x coil_center_x coil_width B_field_strength = Inr B) \<and>
   fst (lenz_animate frame ls) \<noteq> Some ZeroDivisionError \<and>
   flux_history (snd (lenz_animate frame ls)) = flux_history ls @
     [B_field_strength /
        ((magnet_x (snd (lenz_animate frame ls)) - coil_center_x) ^ 2 + (coil_width / 2) ^ 2)
        * coil_width * coil_height * num_turns] \<and>
   0 < last (flux_history (snd (lenz_animate frame ls))) \<and>
   fst (lenz_run frames (lenz_init ls)) \<noteq> Some ZeroDivisionError \<and>
   list_all (\<lambda>f. 0 < f) (flux_history (snd (lenz_run frames (lenz_init ls)))) \<and>
   (frames \<noteq> [] \<longrightarrow> flux_history (snd (lenz_run frames (lenz_init ls))) \<noteq> []) \<and>
   (fst (lenz_run frames (lenz_init ls)) = None \<longrightarrow>
      length (flux_history (snd (lenz_run frames (lenz_init ls)))) = length frames)"
proof -
  let ?st = "snd (lenz_run frames (lenz_init ls))"
  have a: "\<exists>B. calculate_magnetic_field_at_coil x coil_center_x coil_width B_field_strength
      = Inr B"
    by (simp add: calculate_magnetic_field_at_coil_ok)
  have b: "fst (lenz_animate frame ls) \<noteq> Some ZeroDivisionError"
    by (simp add: lenz_animate_raises)
  have c: "flux_history (snd (lenz_animate frame ls)) = flux_history ls @
     [B_field_strength /
        ((magnet_x (snd (lenz_animate frame ls)) - coil_center_x) ^ 2 + (coil_width / 2) ^ 2)
        * coil_width * coil_height * num_turns]"
    by (simp add: lenz_animate_state(1,2) lenz_phi_B_def)
  have d: "0 < last (flux_history (snd (lenz_animate frame ls)))"
    by (simp add: lenz_animate_state(2) lenz_phi_B_pos)
  have run: "lenz_recorded ?st"
    "fst (lenz_run frames (lenz_init ls)) = None \<or>
     fst (lenz_run frames (lenz_init ls)) = Some TypeError"
    "fst (lenz_run frames (lenz_init ls)) = None \<longrightarrow>
      length (flux_history ?st) = length (flux_history (lenz_init ls)) + length frames"
    using lenz_run_recorded[OF lenz_init_inv, of frames ls] by simp_all
  have e: "fst (lenz_run frames (lenz_init ls)) \<noteq> Some ZeroDivisionError"
    using run(2) by auto
  have f: "list_all (\<lambda>f. 0 < f) (flux_history ?st)"
    using run(1) by (simp add: lenz_recorded_def)
  have g: "flux_history ?st \<noteq> []" if "frames \<noteq> []"
  proof -
    have "flux_history (lenz_init ls) = []" by (simp add: lenz_init_def)
    from lenz_run_records_first[OF this that]
    have "emf_history ?st \<noteq> []" by auto
    moreover have "length (emf_history ?st) \<le> length (flux_history ?st)"
      using run(1) by (simp add: lenz_recorded_def)
    ultimately show ?thesis by auto
  qed
  have h: "length (flux_history ?st) = length frames"
    if "fst (lenz_run frames (lenz_init ls)) = None"
    using run(3) that by (simp add: lenz_init_def)
  from a b c d e f g h lenz_denominator_bound(1,2) show ?thesis by blast
qed

theorem lenz_flux_positive_witness:
  "0 < last (flux_history (snd (lenz_animate 0 initial_lenz_state))) \<and>
   flux_history (snd (lenz_run [0, 1] (lenz_init initial_lenz_state))) \<noteq> [] \<and>
   list_all (\<lambda>f. 0 < f) (flux_history (snd (lenz_run [0, 1] (lenz_init initial_lenz_state))))"
proof -
  have "[0, 1 :: nat] \<noteq> []" by simp
  with lenz_flux_positive[of 0 0 initial_lenz_state "[0, 1]"] show ?thesis by blast
qed

text \<open>The script's own second frame.\<close>

lemma lenz_second_frame_emf:
  "lenz_step_emf (snd (lenz_animate 0 (lenz_init initial_lenz_state))) = - (2052000 / 12062629)"
  by (simp add: lenz_step_emf_def lenz_animate_state lenz_phi_B_def lenz_next_x_def
      lenz_init_def initial_lenz_state_def initial_magnet_x_def lenz_magnet_speed_def
      ax_xlim_def magnet_length_def B_field_strength_def coil_center_x_def coil_x_def
      coil_width_def coil_height_def num_turns_def power2_eq_square)

text \<open>
  Claim C4. When the magnitude of the induced current exceeds the display threshold
  (0.01), the resolver is to give counter-clockwise circulation with an outward induced
  field for a negative EMF and clockwise circulation with an inward induced field for a
  positive EMF, and nothing when the EMF is zero or the current is below the threshold.
  The source hides every indicator in the last case. In the two other cases it makes the
  current arrow visible and calls its \<^verbatim>\<open>set_data\<close> with lists, which raises
  \<^verbatim>\<open>TypeError\<close> before an induced-field arrow or the label is switched on and before
  the EMF is recorded; the \<open>dy\<close> it has stored by then is \<open>+ 0.1\<close> for both signs.
  So it is for the EMF \<open>- 0.5\<close> and \<open>+ 0.5\<close>, and in the script's own run at its
  second frame.
\<close>

theorem lenz_indicator_branches_raise:
  "lenz_indicators (- (1 / 2)) (- (1 / 2) / coil_resistance) initial_display =
     (Some TypeError,
      initial_display\<lparr> current_arrow_alpha := 1, current_arrow_dy := 1 / 10 \<rparr>) \<and>
   lenz_indicators (1 / 2) ((1 / 2) / coil_resistance) initial_display =
     (Some TypeError,
      initial_display\<lparr> current_arrow_alpha := 1, current_arrow_dy := 1 / 10 \<rparr>) \<and>
   lenz_indicators 0 (0 / coil_resistance) initial_display =
     (None, hide_indicators initial_display) \<and>
   fst (lenz_run [0, 1] (lenz_init initial_lenz_state)) = Some TypeError \<and>
   emf_history (snd (lenz_run [0, 1] (lenz_init initial_lenz_state))) = [0] \<and>
   induced_B_arrow_out_alpha (display (snd (lenz_run [0, 1] (lenz_init initial_lenz_state))))
     = 0 \<and>
   induced_B_text_alpha (display (snd (lenz_run [0, 1] (lenz_init initial_lenz_state)))) = 0"
proof -
  have i1: "lenz_indicators (- (1 / 2)) (- (1 / 2) / coil_resistance) initial_display =
     (Some TypeError,
      initial_display\<lparr> current_arrow_alpha := 1, current_arrow_dy := 1 / 10 \<rparr>)"
    by (simp add: lenz_indicators_def current_arrow_set_data_def Let_def coil_resistance_def)
  have i2: "lenz_indicators (1 / 2) ((1 / 2) / coil_resistance) initial_display =
     (Some TypeError,
      initial_display\<lparr> current_arrow_alpha := 1, current_arrow_dy := 1 / 10 \<rparr>)"
    by (simp add: lenz_indicators_def current_arrow_set_data_def Let_def coil_resistance_def)
  have i3: "lenz_indicators 0 (0 / coil_resistance) initial_display =
     (None, hide_indicators initial_display)"
    by (simp add: lenz_indicators_def Let_def)
  let ?s0 = "lenz_init initial_lenz_state"
  let ?s1 = "snd (lenz_animate 0 ?s0)"
  have f0: "fst (lenz_animate 0 ?s0) = None" "emf_history ?s1 = [0]"
    using lenz_first_step[of ?s0 0] by (simp_all add: lenz_init_def)
  have f1: "fst (lenz_animate 1 ?s1) = Some TypeError"
    by (simp add: lenz_animate_raises lenz_second_frame_emf coil_resistance_def)
  have run: "lenz_run [0, 1] ?s0 = lenz_animate 1 ?s1"
    using f0(1) f1 by (simp add: Let_def)
  have e1: "emf_history (snd (lenz_animate 1 ?s1)) = [0]"
    using f1 f0(2) by (simp add: lenz_animate_state(4))
  have ds1: "display ?s1 = hide_indicators (hide_indicators initial_display)"
    by (simp add: lenz_animate_state(6) lenz_step_emf_def lenz_indicators_hidden
        lenz_init_def initial_lenz_state_def)
  have "display (snd (lenz_animate 1 ?s1)) =
      snd (lenz_indicators (lenz_step_emf ?s1) (lenz_step_emf ?s1 / coil_resistance)
        (display ?s1))"
    by (rule lenz_animate_state(6))
  also have "\<dots> = snd (lenz_indicators (- (2052000 / 12062629))
        (- (2052000 / 12062629) / coil_resistance)
        (hide_indicators (hide_indicators initial_display)))"
    by (simp only: lenz_second_frame_emf ds1)
  also have "\<dots> = (hide_indicators (hide_indicators initial_display))
        \<lparr> current_arrow_alpha := 1, current_arrow_dy := 1 / 10 \<rparr>"
    by (simp add: lenz_indicators_raised coil_resistance_def)
  finally have d1: "display (snd (lenz_animate 1 ?s1)) =
      (hide_indicators (hide_indicators initial_display))
        \<lparr> current_arrow_alpha := 1, current_arrow_dy := 1 / 10 \<rparr>" .
  show ?thesis
    unfolding run using i1 i2 i3 f1 e1 d1
    by (simp add: hide_indicators_def initial_display_def)
qed

end
